theory Spec2Isabelle
  imports Complex_Main "HOL-Library.Sublist"
begin

section \<open>Python strings\<close>

text \<open>
  A Python \<open>str\<close> is modelled as a \<open>string\<close> whose characters are the code points
  below 256; every token the scripts look for is ASCII.  \<open>is_in sub s\<close> is the Python
  expression \<open>sub in s\<close> on two strings, \<open>startswith s p\<close> is \<open>s.startswith(p)\<close>, and
  \<open>strip s\<close> is \<open>s.strip()\<close>, which removes the characters for which \<open>str.isspace\<close>
  holds from both ends.
\<close>

fun is_in :: "string \<Rightarrow> string \<Rightarrow> bool" where
  "is_in sub [] = (sub = [])"
| "is_in sub (c # s) = (prefix sub (c # s) \<or> is_in sub s)"

definition startswith :: "string \<Rightarrow> string \<Rightarrow> bool" where
  "startswith s p = prefix p s"

definition isspace :: "char \<Rightarrow> bool" where
  "isspace c = ((of_char c :: nat) \<in> set [9, 10, 11, 12, 13, 28, 29, 30, 31, 32, 133, 160])"

definition lstrip :: "string \<Rightarrow> string" where
  "lstrip s = dropWhile isspace s"

definition rstrip :: "string \<Rightarrow> string" where
  "rstrip s = rev (dropWhile isspace (rev s))"

definition strip :: "string \<Rightarrow> string" where
  "strip s = rstrip (lstrip s)"

section \<open>Column classifiers\<close>

text \<open>
  The canonical station order of \<open>generate_ppt\<close> and \<open>process_data\<close>
  (\<open>station_order\<close> in every variant).
\<close>

definition station_order :: "string list" where
  "station_order =
     [''PreAA_1'', ''PreAA_2'', ''AA'', ''AfterExp'', ''LooseClaws'', ''AfterBaking'']"

text \<open>
  The target-column test of \<open>process_uploaded_files\<close>, on \<open>c_str = str(c)\<close>.
  \<open>target_col\<close> is the loop body of 0211v1 (a \<open>continue\<close> when neither family token
  occurs, then the \<open>White\<close>-or-\<open>PreAA\<close> test); \<open>target_col_0210v1\<close> is the list
  comprehension of 0210v1 and 0210v2; \<open>target_col_0210v1_1\<close> is the test of 0210v1.1.
\<close>

definition target_col :: "string \<Rightarrow> bool" where
  "target_col c_str =
     (if \<not> is_in ''Boresight'' c_str \<and> \<not> is_in ''illu_Boresight'' c_str then False
      else if is_in ''White'' c_str \<or> is_in ''PreAA'' c_str then True
      else False)"

definition target_col_0210v1 :: "string \<Rightarrow> bool" where
  "target_col_0210v1 c_str = (is_in ''Boresight'' c_str \<and> is_in ''White'' c_str)"

definition target_col_0210v1_1 :: "string \<Rightarrow> bool" where
  "target_col_0210v1_1 c_str =
     ((is_in ''Boresight'' c_str \<or> is_in ''illu_Boresight'' c_str) \<and> is_in ''White'' c_str)"

text \<open>
  \<open>get_station_name\<close> of 0211v1 and 0210v1.1 (on \<open>col_str = str(col_name)\<close>); the result
  \<open>None\<close> is Python's \<open>None\<close>.  \<open>get_station_name_0210v1\<close> is the function of 0210v1
  and 0210v2, where a \<open>PreAA\<close> name without a marker falls through to the later tests.
\<close>

definition get_station_name :: "string \<Rightarrow> string option" where
  "get_station_name col_str =
     (if is_in ''PreAA'' col_str then
        (if is_in ''H1'' col_str \<or> is_in ''V1'' col_str then Some ''PreAA_1''
         else if is_in ''H2'' col_str \<or> is_in ''V2'' col_str then Some ''PreAA_2''
         else Some ''PreAA_1'')
      else if is_in ''AfterExposure'' col_str then Some ''AfterExp''
      else if is_in ''LooseClaws'' col_str then Some ''LooseClaws''
      else if is_in ''AA_M87'' col_str then Some ''AA''
      else if is_in ''AfterBaking'' col_str then Some ''AfterBaking''
      else None)"

definition get_station_name_0210v1 :: "string \<Rightarrow> string option" where
  "get_station_name_0210v1 col_name =
     (if is_in ''PreAA'' col_name \<and> (is_in ''H1'' col_name \<or> is_in ''V1'' col_name)
        then Some ''PreAA_1''
      else if is_in ''PreAA'' col_name \<and> (is_in ''H2'' col_name \<or> is_in ''V2'' col_name)
        then Some ''PreAA_2''
      else if is_in ''AfterExposure'' col_name then Some ''AfterExp''
      else if is_in ''LooseClaws'' col_name then Some ''LooseClaws''
      else if is_in ''AA_M87'' col_name then Some ''AA''
      else if is_in ''AfterBaking'' col_name then Some ''AfterBaking''
      else None)"

definition get_direction :: "string \<Rightarrow> string" where
  "get_direction name_str =
     (if is_in ''_H_'' name_str \<or> is_in ''illu_Boresight_H'' name_str then ''H''
      else if is_in ''_V_'' name_str \<or> is_in ''illu_Boresight_V'' name_str then ''V''
      else ''Unknown'')"

section \<open>Spreadsheets as pandas reads them\<close>

text \<open>
  A cell of a sheet is a string, a number, a date-time (nanoseconds since the epoch, the
  value of a pandas \<open>Timestamp\<close>), a boolean or empty (\<open>NaN\<close>).  The type \<open>'n\<close> of
  numbers is left open.  A data frame is the list of its columns, in order, each under
  its label (the \<open>str\<close> of the label, which is all the scripts look at).

  The scripts read every sheet twice through pandas.  What pandas returns is an input of
  the model: \<open>raw\<close> is the result of \<open>read_excel(header=None)\<close>, the rows of the sheet
  or the exception raised (\<open>nrows=n\<close> keeps the first \<open>n\<close> rows), and \<open>table h\<close> is the
  result of \<open>read_excel(header=h)\<close>.  \<open>workbook\<close> is the result of \<open>pd.ExcelFile\<close>.
  An \<open>exn\<close> is an instance of Python's \<open>Exception\<close>.
\<close>

type_synonym timestamp = int

datatype 'n cell = CStr string | CNum 'n | CTime timestamp | CBool bool | CNaN

datatype exn = KeyError string | ValueError string | ReadError string

type_synonym 'n dataframe = "(string \<times> 'n cell list) list"

record 'n sheet =
  sheet_name :: string
  raw :: "exn + 'n cell list list"
  table :: "nat \<Rightarrow> exn + 'n dataframe"

record 'n upload =
  file_name :: string
  workbook :: "exn + 'n sheet list"

section \<open>Header Locator\<close>

text \<open>
  \<open>find_header_row\<close>; \<open>nrows\<close> is 30 in 0211v1 and 0210v1.1 and 20 in 0210v1 and 0210v2.
  \<open>is_tester\<close> is the condition of the \<open>if\<close> on the first cell; \<open>row[0]\<close> on a row
  without cells raises \<open>KeyError\<close>, which the \<open>except\<close> turns into the result 0, as it
  does with an exception of the read.
\<close>

definition is_tester :: "'n cell \<Rightarrow> bool" where
  "is_tester c = (case c of CStr s \<Rightarrow> startswith (strip s) ''Tester'' | _ \<Rightarrow> False)"

fun header_loop :: "nat \<Rightarrow> 'n cell list list \<Rightarrow> exn + nat" where
  "header_loop idx [] = Inr 0"
| "header_loop idx (row # rest) =
     (case row of
        [] \<Rightarrow> Inl (KeyError ''0'')
      | c # _ \<Rightarrow> if is_tester c then Inr idx else header_loop (Suc idx) rest)"

definition find_header_row :: "nat \<Rightarrow> 'n sheet \<Rightarrow> nat" where
  "find_header_row nrows sh =
     (case raw sh of
        Inl e \<Rightarrow> 0
      | Inr df_temp \<Rightarrow>
          (case header_loop 0 (take nrows df_temp) of Inl e \<Rightarrow> 0 | Inr idx \<Rightarrow> idx))"

section \<open>Sheet Extractor\<close>

text \<open>
  The rows of the long table.  \<open>CreateTime\<close> is \<open>None\<close> for \<open>NaT\<close>, \<open>Station_Generic\<close>
  is \<open>None\<close> for Python's \<open>None\<close>; the type of \<open>Value\<close> is a cell before
  \<open>pd.to_numeric\<close> and an optional number (\<open>None\<close> for \<open>NaN\<close>) after it.  The web
  variants add the column \<open>Source\<close>, 0210v2 adds \<open>Display_Label\<close> and \<open>Sort_Key\<close>.
\<close>

record 'v melted_row =
  CreateTime :: "timestamp option"
  Station_Raw :: string
  Value :: 'v
  Side :: string
  Direction :: string
  Station_Generic :: "string option"

record 'v st_row = "'v melted_row" +
  Source :: string

record 'v jmp_row = "'v melted_row" +
  Display_Label :: "string option"
  Sort_Key :: int

definition allow_set :: "string list" where
  "allow_set = [''RAA-R'', ''RAA-L'', ''IPQC-R'', ''IPQC-L'']"

definition sheet_side :: "string \<Rightarrow> string" where
  "sheet_side sheet = (if is_in ''-R'' sheet then ''Right'' else ''Left'')"

text \<open>
  The conversion of \<open>CreateTime\<close> followed by \<open>df.melt\<close>: \<open>to_datetime\<close> is what
  \<open>pd.to_datetime(..., errors='coerce')\<close> makes of a cell; \<open>melt\<close> raises \<open>KeyError\<close>
  when the frame has no column \<open>CreateTime\<close>, and otherwise yields, for each target
  column in order, one row per row of the frame.  The target columns are carried with
  their cells.
\<close>

definition melt ::
  "('n cell \<Rightarrow> timestamp option) \<Rightarrow> 'n dataframe \<Rightarrow> 'n dataframe \<Rightarrow>
     exn + (timestamp option \<times> string \<times> 'n cell) list" where
  "melt to_datetime df target_cols =
     (case map_of df ''CreateTime'' of
        None \<Rightarrow> Inl (KeyError ''CreateTime'')
      | Some col \<Rightarrow>
          Inr (concat (map (\<lambda>(c, vals). map (\<lambda>(t, v). (t, c, v)) (zip (map to_datetime col) vals))
                 target_cols)))"

definition st_record ::
  "string \<Rightarrow> string \<Rightarrow> (string \<Rightarrow> string option) \<Rightarrow> timestamp option \<times> string \<times> 'v \<Rightarrow> 'v st_row" where
  "st_record side src station m =
     (case m of (t, c, v) \<Rightarrow>
        \<lparr>CreateTime = t, Station_Raw = c, Value = v, Side = side,
         Direction = get_direction c, Station_Generic = station c, Source = src\<rparr>)"

text \<open>
  The body of the loop over the sheets of one file in 0211v1.  The result is the
  exception raised, or \<open>None\<close> where the code \<open>continue\<close>s, or the frame it appends to
  \<open>all_data\<close>.  \<open>extract_sheet\<close> is the part after the test of the sheet name.
\<close>

definition extract_sheet ::
  "('n cell \<Rightarrow> timestamp option) \<Rightarrow> string \<Rightarrow> 'n sheet \<Rightarrow> exn + ('n cell) st_row list option" where
  "extract_sheet to_datetime src sh =
     (let header_idx = find_header_row 30 sh in
      case table sh header_idx of
        Inl e \<Rightarrow> Inl e
      | Inr df \<Rightarrow>
          (let side = sheet_side (sheet_name sh);
               target_cols = filter (\<lambda>(c, vals). target_col c) df
           in if target_cols = [] then Inr None
              else (case melt to_datetime df target_cols of
                      Inl e \<Rightarrow> Inl e
                    | Inr melted \<Rightarrow> Inr (Some (map (st_record side src get_station_name) melted)))))"

definition process_sheet ::
  "('n cell \<Rightarrow> timestamp option) \<Rightarrow> string \<Rightarrow> 'n sheet \<Rightarrow> exn + ('n cell) st_row list option" where
  "process_sheet to_datetime src sh =
     (let sheet_clean = strip (sheet_name sh) in
      if sheet_clean \<notin> set allow_set then Inr None
      else extract_sheet to_datetime src sh)"

text \<open>The same body in 0210v1: the sheet name is tested as it is, 20 rows are scanned.\<close>

definition process_sheet_0210v1 ::
  "('n cell \<Rightarrow> timestamp option) \<Rightarrow> string \<Rightarrow> 'n sheet \<Rightarrow> exn + ('n cell) st_row list option" where
  "process_sheet_0210v1 to_datetime src sh =
     (if sheet_name sh \<notin> set allow_set then Inr None
      else
        (let header_idx = find_header_row 20 sh in
         case table sh header_idx of
           Inl e \<Rightarrow> Inl e
         | Inr df \<Rightarrow>
             (let side = sheet_side (sheet_name sh);
                  target_cols = filter (\<lambda>(c, vals). target_col_0210v1 c) df
              in if target_cols = [] then Inr None
                 else (case melt to_datetime df target_cols of
                         Inl e \<Rightarrow> Inl e
                       | Inr melted \<Rightarrow>
                           Inr (Some (map (st_record side src get_station_name_0210v1) melted))))))"

section \<open>Dataset Assembler of the web variants\<close>

text \<open>
  The loop over the sheets of one file stops at the first exception and keeps what was
  appended before it; the \<open>try\<close> around it, in the loop over the files, reports the
  exception with \<open>st.error\<close> under the file's name and goes on with the next file.
\<close>

fun sheets_loop :: "('s \<Rightarrow> exn + 'f option) \<Rightarrow> 's list \<Rightarrow> 'f list \<Rightarrow> 'f list \<times> exn option" where
  "sheets_loop ps [] all_data = (all_data, None)"
| "sheets_loop ps (sh # rest) all_data =
     (case ps sh of
        Inl e \<Rightarrow> (all_data, Some e)
      | Inr None \<Rightarrow> sheets_loop ps rest all_data
      | Inr (Some melted) \<Rightarrow> sheets_loop ps rest (all_data @ [melted]))"

fun files_loop ::
  "(string \<Rightarrow> 'n sheet \<Rightarrow> exn + 'f option) \<Rightarrow> 'n upload list \<Rightarrow>
     'f list \<times> (string \<times> exn) list \<Rightarrow> 'f list \<times> (string \<times> exn) list" where
  "files_loop ps [] st = st"
| "files_loop ps (uploaded_file # rest) (all_data, errors) =
     (case workbook uploaded_file of
        Inl e \<Rightarrow> files_loop ps rest (all_data, errors @ [(file_name uploaded_file, e)])
      | Inr sheets \<Rightarrow>
          (case sheets_loop (ps (file_name uploaded_file)) sheets all_data of
             (all_data', None) \<Rightarrow> files_loop ps rest (all_data', errors)
           | (all_data', Some e) \<Rightarrow>
               files_loop ps rest (all_data', errors @ [(file_name uploaded_file, e)])))"

text \<open>
  \<open>to_numeric\<close> is what \<open>pd.to_numeric(..., errors='coerce')\<close> makes of a cell;
  \<open>dropna\<close> is \<open>dropna(subset=['Value', 'Station_Generic'])\<close>.  \<open>assemble\<close> is the
  end of \<open>process_uploaded_files\<close>, from \<open>if not all_data\<close> on; the empty list of
  records is the empty frame it returns there.  The second component of the result of
  \<open>process_uploaded_files\<close> lists the calls of \<open>st.error\<close>, in order.
\<close>

definition to_numeric_Value :: "('c \<Rightarrow> 'n option) \<Rightarrow> 'c st_row \<Rightarrow> ('n option) st_row" where
  "to_numeric_Value to_numeric r =
     \<lparr>CreateTime = CreateTime r, Station_Raw = Station_Raw r, Value = to_numeric (Value r),
      Side = Side r, Direction = Direction r, Station_Generic = Station_Generic r,
      Source = Source r\<rparr>"

definition dropna ::
  "('n option, 'z) melted_row_scheme list \<Rightarrow> ('n option, 'z) melted_row_scheme list" where
  "dropna df = filter (\<lambda>r. Value r \<noteq> None \<and> Station_Generic r \<noteq> None) df"

definition assemble :: "('c \<Rightarrow> 'n option) \<Rightarrow> 'c st_row list list \<Rightarrow> ('n option) st_row list" where
  "assemble to_numeric all_data =
     (if all_data = [] then []
      else dropna (map (to_numeric_Value to_numeric) (concat all_data)))"

definition process_uploaded_files ::
  "('n cell \<Rightarrow> timestamp option) \<Rightarrow> ('n cell \<Rightarrow> 'n option) \<Rightarrow> 'n upload list \<Rightarrow>
     ('n option) st_row list \<times> (string \<times> exn) list" where
  "process_uploaded_files to_datetime to_numeric uploaded_files =
     (case files_loop (process_sheet to_datetime) uploaded_files ([], []) of
        (all_data, errors) \<Rightarrow> (assemble to_numeric all_data, errors))"

definition process_uploaded_files_0210v1 ::
  "('n cell \<Rightarrow> timestamp option) \<Rightarrow> ('n cell \<Rightarrow> 'n option) \<Rightarrow> 'n upload list \<Rightarrow>
     ('n option) st_row list \<times> (string \<times> exn) list" where
  "process_uploaded_files_0210v1 to_datetime to_numeric uploaded_files =
     (case files_loop (process_sheet_0210v1 to_datetime) uploaded_files ([], []) of
        (all_data, errors) \<Rightarrow> (assemble to_numeric all_data, errors))"

section \<open>Report Renderer: the latest box plot\<close>

text \<open>
  \<open>generate_ppt\<close> is given a frame: \<open>NoColumns\<close> is \<open>pd.DataFrame()\<close>, the frame
  without columns that \<open>process_uploaded_files\<close> returns when \<open>all_data\<close> is empty, and
  \<open>Frame df\<close> is a frame that has the columns of the long table and the records \<open>df\<close>.
  On \<open>NoColumns\<close> the line that builds \<open>Display_Label\<close> from \<open>df['Side']\<close> raises
  \<open>KeyError\<close>.  Drawing is left to the plotting library: an image is the call that
  draws it, with the data, the title and the y-range it is given.

  \<open>date_of\<close> is the date of a timestamp, as the number of days since the epoch.
  \<open>series_max\<close> is \<open>df['CreateTime'].max()\<close>, which skips \<open>NaT\<close> and is \<open>NaT\<close> when
  nothing is left, and \<open>date_or_NaT\<close> is \<open>.date()\<close> on its result, which is \<open>NaT\<close> on
  \<open>NaT\<close>.  \<open>latest_date\<close> is what the variable of that name holds: a date, \<open>NaT\<close>, or
  the text \<open>N/A\<close> of the fallback.  \<open>same_date\<close> is the comparison
  \<open>df['CreateTime'].dt.date == latest_date\<close> on one record, false whenever either side
  is \<open>NaT\<close>.
\<close>

datatype 'r frame = NoColumns | Frame "'r list"

datatype latest_date = Date int | NaT | NA

datatype title = Overall_Summary | Latest_Data latest_date | Control_Chart

datatype 'r image =
    Boxplot "'r list" title "(real \<times> real) option"
  | ControlChart "'r list" "(real \<times> real) option"

definition date_of :: "timestamp \<Rightarrow> int" where
  "date_of t = t div 86400000000000"

definition series_max :: "timestamp option list \<Rightarrow> timestamp option" where
  "series_max col =
     (case List.map_filter (\<lambda>t. t) col of [] \<Rightarrow> None | t # ts \<Rightarrow> Some (fold max ts t))"

definition date_or_NaT :: "timestamp option \<Rightarrow> latest_date" where
  "date_or_NaT m = (case m of None \<Rightarrow> NaT | Some t \<Rightarrow> Date (date_of t))"

definition same_date :: "latest_date \<Rightarrow> ('v, 'z) melted_row_scheme \<Rightarrow> bool" where
  "same_date latest_date r =
     (case CreateTime r of
        None \<Rightarrow> False
      | Some t \<Rightarrow> (case latest_date of Date d \<Rightarrow> date_of t = d | _ \<Rightarrow> False))"

text \<open>
  The section \<open>Latest\<close> of \<open>generate_ppt\<close> in 0211v1 and 0210v1.1: the value of
  \<open>latest_date\<close> and the two images stored under \<open>latest_auto\<close> and \<open>latest_fixed\<close>.
\<close>

definition latest_images ::
  "('v, 'z) melted_row_scheme list \<Rightarrow> ('v, 'z) melted_row_scheme image \<Rightarrow>
     ('v, 'z) melted_row_scheme image \<Rightarrow>
     latest_date \<times> ('v, 'z) melted_row_scheme image \<times> ('v, 'z) melted_row_scheme image" where
  "latest_images df overall_auto overall_fixed =
     (if df \<noteq> [] then
        (let latest_date = date_or_NaT (series_max (map CreateTime df));
             latest_df = filter (same_date latest_date) df
         in (latest_date,
             Boxplot latest_df (Latest_Data latest_date) None,
             Boxplot latest_df (Latest_Data latest_date) (Some (- 1.5, 1.5))))
      else (NA, overall_auto, overall_fixed))"


type_synonym 'r ppt = "(title \<times> 'r image \<times> 'r image) list"

definition slides ::
  "('v, 'z) melted_row_scheme list \<Rightarrow> ('v, 'z) melted_row_scheme image \<Rightarrow>
     ('v, 'z) melted_row_scheme image \<Rightarrow>
     latest_date \<times> ('v, 'z) melted_row_scheme image \<times> ('v, 'z) melted_row_scheme image \<Rightarrow>
     ('v, 'z) melted_row_scheme ppt" where
  "slides df overall_auto overall_fixed latest =
     (case latest of (latest_date, latest_auto, latest_fixed) \<Rightarrow>
        [(Overall_Summary, overall_auto, overall_fixed),
         (Latest_Data latest_date, latest_auto, latest_fixed),
         (Control_Chart, ControlChart df None, ControlChart df (Some (- 0.3, 0.3)))])"

definition generate_ppt ::
  "('v, 'z) melted_row_scheme frame \<Rightarrow> exn + ('v, 'z) melted_row_scheme ppt" where
  "generate_ppt fr =
     (case fr of
        NoColumns \<Rightarrow> Inl (KeyError ''Side'')
      | Frame df \<Rightarrow>
          (let overall_auto = Boxplot df Overall_Summary None;
               overall_fixed = Boxplot df Overall_Summary (Some (- 1.5, 1.5))
           in Inr (slides df overall_auto overall_fixed
                     (latest_images df overall_auto overall_fixed))))"


text \<open>
  The end of \<open>process_uploaded_files\<close> with the frame it returns: \<open>pd.DataFrame()\<close>
  when \<open>all_data\<close> is empty, and a frame with the columns of the long table otherwise.
  Its records are those of \<open>assemble\<close>.
\<close>

definition assemble_frame ::
  "('c \<Rightarrow> 'n option) \<Rightarrow> 'c st_row list list \<Rightarrow> ('n option) st_row frame" where
  "assemble_frame to_numeric all_data =
     (if all_data = [] then NoColumns
      else Frame (dropna (map (to_numeric_Value to_numeric) (concat all_data))))"

section \<open>The page of the web variants\<close>

text \<open>
  What the page shows, in order: the \<open>st.error\<close> of each file that failed, then the
  success or the warning with the number of rows and the download of the report, or the
  \<open>st.error\<close> that the data cannot be parsed.  An exception of \<open>generate_ppt\<close> is not
  caught by the script; the table handed to \<open>generate_ppt\<close> has records, hence columns.  \<open>clicked\<close> is the state of the button, which the page shows
  only when files are uploaded.
\<close>

datatype 'r ui_event =
    ReadFailed string exn
  | Success nat
  | Warning nat
  | Download "'r ppt"
  | CannotParse
  | Uncaught exn

definition report_branch ::
  "('v, 'z) melted_row_scheme list \<Rightarrow> ('v, 'z) melted_row_scheme ui_event list" where
  "report_branch df =
     (if df \<noteq> [] then
        (let unique_stations = remdups (map Station_Generic df) in
         (if Some ''PreAA_1'' \<in> set unique_stations then [Success (length df)]
          else [Warning (length df)])
         @ (case generate_ppt (Frame df) of
              Inl e \<Rightarrow> [Uncaught e]
            | Inr ppt_file \<Rightarrow> [Download ppt_file]))
      else [CannotParse])"

definition main_ui ::
  "('n cell \<Rightarrow> timestamp option) \<Rightarrow> ('n cell \<Rightarrow> 'n option) \<Rightarrow> 'n upload list \<Rightarrow> bool \<Rightarrow>
     ('n option) st_row ui_event list" where
  "main_ui to_datetime to_numeric uploaded_files clicked =
     (if uploaded_files \<noteq> [] then
        (if clicked then
           (case process_uploaded_files to_datetime to_numeric uploaded_files of
              (df, errors) \<Rightarrow> map (\<lambda>(n, e). ReadFailed n e) errors @ report_branch df)
         else [])
      else [])"



section \<open>Dataset Assembler of 0210v2\<close>

text \<open>
  \<open>process_data\<close> of 0210v2 reads the files found in the directory.  Only the opening
  of a workbook stands in a \<open>try\<close>, whose \<open>except\<close> goes on with the next file without
  a message; an exception in the loop over the sheets leaves \<open>process_data\<close>.  What
  the function prints is left out.
\<close>

definition jmp_record :: "string \<Rightarrow> timestamp option \<times> string \<times> 'v \<Rightarrow> 'v melted_row" where
  "jmp_record side m =
     (case m of (t, c, v) \<Rightarrow>
        \<lparr>CreateTime = t, Station_Raw = c, Value = v, Side = side,
         Direction = get_direction c, Station_Generic = get_station_name_0210v1 c\<rparr>)"

definition process_sheet_0210v2 ::
  "('n cell \<Rightarrow> timestamp option) \<Rightarrow> 'n sheet \<Rightarrow> exn + ('n cell) melted_row list option" where
  "process_sheet_0210v2 to_datetime sh =
     (if sheet_name sh \<notin> set allow_set then Inr None
      else
        (let header_idx = find_header_row 20 sh in
         case table sh header_idx of
           Inl e \<Rightarrow> Inl e
         | Inr df \<Rightarrow>
             (let side = sheet_side (sheet_name sh);
                  target_cols = filter (\<lambda>(c, vals). target_col_0210v1 c) df
              in if target_cols = [] then Inr None
                 else (case melt to_datetime df target_cols of
                         Inl e \<Rightarrow> Inl e
                       | Inr melted \<Rightarrow> Inr (Some (map (jmp_record side) melted))))))"

fun sheets_loop_0210v2 :: "('s \<Rightarrow> exn + 'f option) \<Rightarrow> 's list \<Rightarrow> 'f list \<Rightarrow> exn + 'f list" where
  "sheets_loop_0210v2 ps [] all_data = Inr all_data"
| "sheets_loop_0210v2 ps (sh # rest) all_data =
     (case ps sh of
        Inl e \<Rightarrow> Inl e
      | Inr None \<Rightarrow> sheets_loop_0210v2 ps rest all_data
      | Inr (Some melted) \<Rightarrow> sheets_loop_0210v2 ps rest (all_data @ [melted]))"

fun files_loop_0210v2 ::
  "('n sheet \<Rightarrow> exn + 'f option) \<Rightarrow> 'n upload list \<Rightarrow> 'f list \<Rightarrow> exn + 'f list" where
  "files_loop_0210v2 ps [] all_data = Inr all_data"
| "files_loop_0210v2 ps (file # rest) all_data =
     (case workbook file of
        Inl e \<Rightarrow> files_loop_0210v2 ps rest all_data
      | Inr sheets \<Rightarrow>
          (case sheets_loop_0210v2 ps sheets all_data of
             Inl e \<Rightarrow> Inl e
           | Inr all_data' \<Rightarrow> files_loop_0210v2 ps rest all_data'))"

text \<open>
  \<open>order_map\<close> is the dictionary built from \<open>station_order\<close>; \<open>get_sort_key\<close> reads it
  with the default 99 and adds 100 unless \<open>Side\<close> is \<open>Left\<close>.
\<close>

definition order_map :: "string \<rightharpoonup> int" where
  "order_map = map_of (zip station_order (map int [0..<length station_order]))"

definition get_sort_key :: "('v, 'z) melted_row_scheme \<Rightarrow> int" where
  "get_sort_key row =
     (let base_order =
        (case Station_Generic row of
           None \<Rightarrow> 99
         | Some s \<Rightarrow> (case order_map s of None \<Rightarrow> 99 | Some i \<Rightarrow> i))
      in if Side row = ''Left'' then base_order else base_order + 100)"

definition to_numeric_Value_0210v2 ::
  "('c \<Rightarrow> 'n option) \<Rightarrow> 'c melted_row \<Rightarrow> ('n option) melted_row" where
  "to_numeric_Value_0210v2 to_numeric r =
     \<lparr>CreateTime = CreateTime r, Station_Raw = Station_Raw r, Value = to_numeric (Value r),
      Side = Side r, Direction = Direction r, Station_Generic = Station_Generic r\<rparr>"

definition add_keys :: "'v melted_row \<Rightarrow> 'v jmp_row" where
  "add_keys r =
     \<lparr>CreateTime = CreateTime r, Station_Raw = Station_Raw r, Value = Value r,
      Side = Side r, Direction = Direction r, Station_Generic = Station_Generic r,
      Display_Label = map_option (\<lambda>s. take 1 (Side r) @ ''-'' @ s) (Station_Generic r),
      Sort_Key = get_sort_key r\<rparr>"

definition process_data ::
  "('n cell \<Rightarrow> timestamp option) \<Rightarrow> ('n cell \<Rightarrow> 'n option) \<Rightarrow> 'n upload list \<Rightarrow>
     exn + ('n option) jmp_row list" where
  "process_data to_datetime to_numeric excel_files =
     (if excel_files = [] then Inr []
      else
        (case files_loop_0210v2 (process_sheet_0210v2 to_datetime) excel_files [] of
           Inl e \<Rightarrow> Inl e
         | Inr all_data \<Rightarrow>
             if all_data = [] then Inr []
             else Inr (map add_keys
                        (dropna (map (to_numeric_Value_0210v2 to_numeric) (concat all_data))))))"

section \<open>Predicates and inputs used in the statements\<close>

text \<open>
  \<open>tester_row row\<close>: the row has a first cell and the test of \<open>find_header_row\<close>
  holds of it.
\<close>

definition tester_row :: "'n cell list \<Rightarrow> bool" where
  "tester_row row = (case row of [] \<Rightarrow> False | c # _ \<Rightarrow> is_tester c)"

text \<open>A sheet with two banner rows above the header, and a sheet that cannot be read.\<close>

definition banner_sheet :: "int sheet" where
  "banner_sheet =
     \<lparr>sheet_name = ''RAA-L'',
      raw = Inr [[CStr ''Optical report'', CNaN],
                 [CNaN, CNaN],
                 [CStr '' Tester ID'', CStr ''CreateTime''],
                 [CStr ''Tester'', CTime 0]],
      table = (\<lambda>h. Inl (ReadError ''no table''))\<rparr>"

definition broken_sheet :: "int sheet" where
  "broken_sheet =
     \<lparr>sheet_name = ''RAA-L'', raw = Inl (ReadError ''bad zip''),
      table = (\<lambda>h. Inl (ReadError ''bad zip''))\<rparr>"

text \<open>
  \<open>all_data_of\<close> is the list \<open>all_data\<close> of \<open>process_uploaded_files\<close> when the loop
  over the files has ended.
\<close>

definition all_data_of ::
  "(string \<Rightarrow> 'n sheet \<Rightarrow> exn + 'f option) \<Rightarrow> 'n upload list \<Rightarrow> 'f list" where
  "all_data_of ps uploaded_files = fst (files_loop ps uploaded_files ([], []))"

text \<open>
  \<open>canonical_row\<close>: the station is missing or one of the six canonical ones, and the
  side is \<open>Left\<close> or \<open>Right\<close>.
\<close>

definition canonical_row :: "('v, 'z) melted_row_scheme \<Rightarrow> bool" where
  "canonical_row r \<longleftrightarrow>
     Station_Generic r \<in> insert None (Some ` set station_order)
     \<and> (Side r = ''Left'' \<or> Side r = ''Right'')"

text \<open>
  Conversions that keep date-time cells and number cells and make everything else
  missing, and a workbook with one sheet \<open>RAA-L\<close>: its first \<open>CreateTime\<close> cell is not
  a date and the second cell of its first measurement column is the text \<open>N/A\<close>.
\<close>

definition to_datetime_ex :: "int cell \<Rightarrow> timestamp option" where
  "to_datetime_ex c = (case c of CTime t \<Rightarrow> Some t | _ \<Rightarrow> None)"

definition to_numeric_ex :: "int cell \<Rightarrow> int option" where
  "to_numeric_ex c = (case c of CNum x \<Rightarrow> Some x | _ \<Rightarrow> None)"

definition good_table :: "int dataframe" where
  "good_table =
     [(''Tester'', [CStr ''T1'', CStr ''T1'']),
      (''CreateTime'', [CStr ''n/a'', CTime 86400000000000]),
      (''AA_M87_Boresight_H_White'', [CNum 1, CStr ''N/A'']),
      (''Other_Boresight_V_White'', [CNum 2, CNum 3])]"

definition good_sheet :: "int sheet" where
  "good_sheet =
     \<lparr>sheet_name = ''RAA-L'', raw = Inr [[CStr ''Tester'', CStr ''CreateTime'']],
      table = (\<lambda>h. Inr good_table)\<rparr>"

definition good_file :: "int upload" where
  "good_file = \<lparr>file_name = ''a.xlsx'', workbook = Inr [good_sheet]\<rparr>"

definition good_row :: "(int option) st_row" where
  "good_row =
     \<lparr>CreateTime = None, Station_Raw = ''AA_M87_Boresight_H_White'', Value = Some 1,
      Side = ''Left'', Direction = ''H'', Station_Generic = Some ''AA'', Source = ''a.xlsx''\<rparr>"

text \<open>A workbook whose sheet \<open>RAA-R\<close> has a measurement column and no column \<open>CreateTime\<close>.\<close>

definition no_time_sheet :: "int sheet" where
  "no_time_sheet =
     \<lparr>sheet_name = ''RAA-R'', raw = Inr [[CStr ''Tester'', CStr ''AA_M87_Boresight_H_White'']],
      table = (\<lambda>h. Inr [(''Tester'', [CStr ''T1'']), (''AA_M87_Boresight_H_White'', [CNum 1])])\<rparr>"

definition no_time_file :: "int upload" where
  "no_time_file = \<lparr>file_name = ''b.xlsx'', workbook = Inr [no_time_sheet]\<rparr>"

text \<open>The sheet of \<open>good_file\<close> under the name \<open>RAA-R\<close> followed by a space.\<close>

definition padded_sheet :: "int sheet" where
  "padded_sheet =
     \<lparr>sheet_name = ''RAA-R '', raw = Inr [[CStr ''Tester'', CStr ''CreateTime'']],
      table = (\<lambda>h. Inr good_table)\<rparr>"

text \<open>Rows and workbooks of the examples for 0210v2 and for the padded sheet name.\<close>

definition good_jmp_row :: "(int option) jmp_row" where
  "good_jmp_row =
     \<lparr>CreateTime = None, Station_Raw = ''AA_M87_Boresight_H_White'', Value = Some 1,
      Side = ''Left'', Direction = ''H'', Station_Generic = Some ''AA'',
      Display_Label = Some ''L-AA'', Sort_Key = 2\<rparr>"

definition right_sheet :: "int sheet" where
  "right_sheet =
     \<lparr>sheet_name = ''IPQC-R'', raw = Inr [[CStr ''Tester'', CStr ''CreateTime'']],
      table = (\<lambda>h. Inr good_table)\<rparr>"

definition two_side_file :: "int upload" where
  "two_side_file = \<lparr>file_name = ''c.xlsx'', workbook = Inr [right_sheet, good_sheet]\<rparr>"

definition right_jmp_row :: "(int option) jmp_row" where
  "right_jmp_row =
     \<lparr>CreateTime = None, Station_Raw = ''AA_M87_Boresight_H_White'', Value = Some 1,
      Side = ''Right'', Direction = ''H'', Station_Generic = Some ''AA'',
      Display_Label = Some ''R-AA'', Sort_Key = 102\<rparr>"

definition padded_rows :: "(int cell) st_row list" where
  "padded_rows =
     [\<lparr>CreateTime = None, Station_Raw = ''AA_M87_Boresight_H_White'', Value = CNum 1,
       Side = ''Right'', Direction = ''H'', Station_Generic = Some ''AA'', Source = ''a.xlsx''\<rparr>,
      \<lparr>CreateTime = Some 86400000000000, Station_Raw = ''AA_M87_Boresight_H_White'',
       Value = CStr ''N/A'', Side = ''Right'', Direction = ''H'', Station_Generic = Some ''AA'',
       Source = ''a.xlsx''\<rparr>,
      \<lparr>CreateTime = None, Station_Raw = ''Other_Boresight_V_White'', Value = CNum 2,
       Side = ''Right'', Direction = ''V'', Station_Generic = None, Source = ''a.xlsx''\<rparr>,
      \<lparr>CreateTime = Some 86400000000000, Station_Raw = ''Other_Boresight_V_White'',
       Value = CNum 3, Side = ''Right'', Direction = ''V'', Station_Generic = None,
       Source = ''a.xlsx''\<rparr>]"


text \<open>
  Records of two days, a workbook whose only measurement column is \<open>PreAA_H2_Boresight\<close>
  with the record it yields, and a workbook with a sheet outside the allow-set and a
  sheet \<open>RAA-L\<close> without target columns.
\<close>

definition day1_row :: "(int option) st_row" where
  "day1_row = good_row\<lparr>CreateTime := Some 86400000000000\<rparr>"


definition preaa2_file :: "int upload" where
  "preaa2_file =
     \<lparr>file_name = ''p.xlsx'',
      workbook = Inr [\<lparr>sheet_name = ''RAA-L'', raw = Inr [[CStr ''Tester'', CStr ''CreateTime'']],
                       table = (\<lambda>h. Inr [(''CreateTime'', [CTime 172800000000005]),
                                            (''PreAA_H2_Boresight'', [CNum 7])])\<rparr>]\<rparr>"

definition preaa2_row :: "(int option) st_row" where
  "preaa2_row =
     \<lparr>CreateTime = Some 172800000000005, Station_Raw = ''PreAA_H2_Boresight'', Value = Some 7,
      Side = ''Left'', Direction = ''Unknown'', Station_Generic = Some ''PreAA_2'',
      Source = ''p.xlsx''\<rparr>"

definition other_file :: "int upload" where
  "other_file =
     \<lparr>file_name = ''o.xlsx'',
      workbook = Inr [\<lparr>sheet_name = ''Summary'', raw = Inl (ReadError ''not read''),
                       table = (\<lambda>h. Inl (ReadError ''not read''))\<rparr>,
                      \<lparr>sheet_name = ''RAA-L'', raw = Inr [[CStr ''Tester'', CStr ''CreateTime'']],
                       table = (\<lambda>h. Inr [(''CreateTime'', [CTime 0]), (''Notes'', [CStr ''ok''])])\<rparr>]\<rparr>"

text \<open>
  \<open>skipped_sheet sh\<close>: the stripped name of the sheet is outside the allow-set, or the
  sheet is read without exception and has no target column.  \<open>readable_without_records\<close>:
  the workbook opens and each of its sheets is such a sheet.
\<close>

definition skipped_sheet :: "'n sheet \<Rightarrow> bool" where
  "skipped_sheet sh \<longleftrightarrow>
     strip (sheet_name sh) \<notin> set allow_set
     \<or> (case table sh (find_header_row 30 sh) of
           Inl e \<Rightarrow> False
         | Inr df \<Rightarrow> filter (\<lambda>(c, vals). target_col c) df = [])"

definition readable_without_records :: "'n upload \<Rightarrow> bool" where
  "readable_without_records uf =
     (case workbook uf of Inl e \<Rightarrow> False | Inr shs \<Rightarrow> list_all skipped_sheet shs)"



section \<open>Properties of the string operations\<close>

lemma is_in_sublist: "is_in sub s \<longleftrightarrow> sublist sub s"
  by (induction s) (simp_all add: sublist_Cons_right)

lemma is_in_iff: "is_in sub s \<longleftrightarrow> (\<exists>ps ss. s = ps @ sub @ ss)"
  by (simp add: is_in_sublist sublist_def)

lemma is_in_trans: "is_in a b \<Longrightarrow> is_in b s \<Longrightarrow> is_in a s"
  unfolding is_in_sublist by (rule sublist_order.order_trans)

lemma Boresight_in_illu: "is_in ''Boresight'' ''illu_Boresight''"
  by simp

lemma illu_Boresight_family: "is_in ''illu_Boresight'' s \<Longrightarrow> is_in ''Boresight'' s"
  using Boresight_in_illu by (rule is_in_trans)

lemma target_col_0210v1_1_eq: "target_col_0210v1_1 c = target_col_0210v1 c"
  using illu_Boresight_family [of c]
  by (auto simp: target_col_0210v1_1_def target_col_0210v1_def)

section \<open>The target-column test\<close>

text \<open>
  Claim C1.  The target-column test of the later revision returns true exactly for the
  names that contain \<open>Boresight\<close> or \<open>illu_Boresight\<close> and also contain \<open>White\<close> or
  \<open>PreAA\<close>; the test of the earlier revision returns true exactly for the names that
  contain the family token and \<open>White\<close>.  In both, a name containing \<open>Boresight\<close> and
  \<open>White\<close> is a target column and a name without the Boresight family is not.
\<close>

theorem target_col_iff:
  "(target_col c \<longleftrightarrow>
      (is_in ''Boresight'' c \<or> is_in ''illu_Boresight'' c) \<and>
      (is_in ''White'' c \<or> is_in ''PreAA'' c))
   \<and> (target_col_0210v1 c \<longleftrightarrow>
      (is_in ''Boresight'' c \<or> is_in ''illu_Boresight'' c) \<and> is_in ''White'' c)
   \<and> (is_in ''Boresight'' c \<and> is_in ''White'' c \<longrightarrow> target_col c \<and> target_col_0210v1 c)
   \<and> (\<not> is_in ''Boresight'' c \<and> \<not> is_in ''illu_Boresight'' c \<longrightarrow>
        \<not> target_col c \<and> \<not> target_col_0210v1 c)"
  using illu_Boresight_family [of c]
  by (auto simp: target_col_def target_col_0210v1_def)

theorem target_col_iff_witness:
  "target_col ''illu_Boresight_H_White_1'' \<and> target_col_0210v1 ''illu_Boresight_H_White_1''
   \<and> target_col ''PreAA_H1_Boresight'' \<and> \<not> target_col_0210v1 ''PreAA_H1_Boresight''
   \<and> \<not> target_col ''PreAA_H1_White'' \<and> \<not> target_col_0210v1 ''PreAA_H1_White''"
  using target_col_iff [of "''illu_Boresight_H_White_1''"]
    target_col_iff [of "''PreAA_H1_Boresight''"]
    target_col_iff [of "''PreAA_H1_White''"]
  by simp

section \<open>Range of the station classifier\<close>

lemma get_station_name_range:
  "get_station_name s \<in> insert None (Some ` set station_order)"
  by (simp add: get_station_name_def station_order_def)

lemma get_station_name_0210v1_range:
  "get_station_name_0210v1 s \<in> insert None (Some ` set station_order)"
  by (simp add: get_station_name_0210v1_def station_order_def)

section \<open>The station classifier\<close>

text \<open>
  Claim C2.  For every string, \<open>get_station_name\<close> returns one of the six canonical
  stations or \<open>None\<close>, in the later and in the earlier variants; both map
  \<open>PreAA_H1_White\<close> to \<open>PreAA_1\<close>, \<open>PreAA_H2_White\<close> to \<open>PreAA_2\<close> and
  \<open>AA_M87_White\<close> to \<open>AA\<close>; and in the later variants a name that contains \<open>PreAA\<close>
  and none of \<open>H1\<close>, \<open>V1\<close>, \<open>H2\<close>, \<open>V2\<close> is classified as \<open>PreAA_1\<close>.
\<close>

theorem get_station_name_total:
  "get_station_name s \<in> insert None (Some ` set station_order)
   \<and> get_station_name_0210v1 s \<in> insert None (Some ` set station_order)
   \<and> get_station_name ''PreAA_H1_White'' = Some ''PreAA_1''
   \<and> get_station_name ''PreAA_H2_White'' = Some ''PreAA_2''
   \<and> get_station_name ''AA_M87_White'' = Some ''AA''
   \<and> get_station_name_0210v1 ''PreAA_H1_White'' = Some ''PreAA_1''
   \<and> get_station_name_0210v1 ''PreAA_H2_White'' = Some ''PreAA_2''
   \<and> get_station_name_0210v1 ''AA_M87_White'' = Some ''AA''
   \<and> (is_in ''PreAA'' s \<and> \<not> is_in ''H1'' s \<and> \<not> is_in ''V1'' s \<and> \<not> is_in ''H2'' s
        \<and> \<not> is_in ''V2'' s \<longrightarrow> get_station_name s = Some ''PreAA_1'')"
proof -
  have ex: "get_station_name ''PreAA_H1_White'' = Some ''PreAA_1''"
    "get_station_name ''PreAA_H2_White'' = Some ''PreAA_2''"
    "get_station_name ''AA_M87_White'' = Some ''AA''"
    by (simp_all add: get_station_name_def)
  have ex': "get_station_name_0210v1 ''PreAA_H1_White'' = Some ''PreAA_1''"
    "get_station_name_0210v1 ''PreAA_H2_White'' = Some ''PreAA_2''"
    "get_station_name_0210v1 ''AA_M87_White'' = Some ''AA''"
    by (simp_all add: get_station_name_0210v1_def)
  have dflt: "is_in ''PreAA'' s \<and> \<not> is_in ''H1'' s \<and> \<not> is_in ''V1'' s \<and> \<not> is_in ''H2'' s
        \<and> \<not> is_in ''V2'' s \<longrightarrow> get_station_name s = Some ''PreAA_1''"
    by (simp add: get_station_name_def)
  from ex ex' dflt get_station_name_range [of s] get_station_name_0210v1_range [of s]
  show ?thesis by blast
qed

theorem get_station_name_total_witness:
  "get_station_name ''PreAA_Boresight'' = Some ''PreAA_1''
   \<and> get_station_name_0210v1 ''PreAA_Boresight'' = None
   \<and> get_station_name ''Tester'' = None"
proof -
  have "is_in ''PreAA'' ''PreAA_Boresight'' \<and> \<not> is_in ''H1'' ''PreAA_Boresight''
      \<and> \<not> is_in ''V1'' ''PreAA_Boresight'' \<and> \<not> is_in ''H2'' ''PreAA_Boresight''
      \<and> \<not> is_in ''V2'' ''PreAA_Boresight''"
    by simp
  with get_station_name_total [of "''PreAA_Boresight''"]
  have "get_station_name ''PreAA_Boresight'' = Some ''PreAA_1''" by blast
  moreover have "get_station_name_0210v1 ''PreAA_Boresight'' = None"
    by (simp add: get_station_name_0210v1_def)
  moreover have "get_station_name ''Tester'' = None"
    by (simp add: get_station_name_def)
  ultimately show ?thesis by blast
qed

section \<open>The header locator\<close>

lemma header_loop_found:
  "\<forall>r\<in>set rows. r \<noteq> [] \<Longrightarrow> i < length rows \<Longrightarrow> tester_row (rows ! i) \<Longrightarrow>
   \<forall>j<i. \<not> tester_row (rows ! j) \<Longrightarrow> header_loop idx rows = Inr (idx + i)"
proof (induction rows arbitrary: idx i)
  case Nil
  then show ?case by simp
next
  case (Cons row rest)
  from Cons.prems(1) obtain c cs where row: "row = c # cs"
    by (cases row) auto
  show ?case
  proof (cases i)
    case 0
    with Cons.prems(3) row show ?thesis by (simp add: tester_row_def)
  next
    case (Suc k)
    with Cons.prems(4) have "\<not> tester_row ((row # rest) ! 0)" by blast
    with row have nt: "\<not> is_tester c" by (simp add: tester_row_def)
    have "header_loop (Suc idx) rest = Inr (Suc idx + k)"
    proof (rule Cons.IH)
      show "\<forall>r\<in>set rest. r \<noteq> []" using Cons.prems(1) by simp
      show "k < length rest" using Cons.prems(2) Suc by simp
      show "tester_row (rest ! k)" using Cons.prems(3) Suc by simp
      show "\<forall>j<k. \<not> tester_row (rest ! j)"
      proof (intro allI impI)
        fix j assume "j < k"
        then have "Suc j < i" using Suc by simp
        with Cons.prems(4) have "\<not> tester_row ((row # rest) ! Suc j)" by blast
        then show "\<not> tester_row (rest ! j)" by simp
      qed
    qed
    with row nt Suc show ?thesis by simp
  qed
qed

lemma header_loop_none:
  "\<forall>r\<in>set rows. \<not> tester_row r \<Longrightarrow>
   header_loop idx rows = Inr 0 \<or> (\<exists>e. header_loop idx rows = Inl e)"
proof (induction rows arbitrary: idx)
  case Nil
  then show ?case by simp
next
  case (Cons row rest)
  then show ?case by (cases row) (auto simp: tester_row_def)
qed

text \<open>
  Claim C3.  On a sheet whose rows all have the same number of cells,
  \<open>find_header_row\<close> returns the index of the first row, among the first \<open>nrows\<close>
  rows, whose first cell is a string that starts with \<open>Tester\<close> once stripped; it
  returns 0 when no such row is among them and when the read raises.  Its result is a
  number in every case: no exception leaves it.
\<close>

theorem find_header_row_first_match:
  assumes rect: "\<forall>r\<in>set rows. length r = w"
  shows "(raw sh = Inr rows \<and> i < nrows \<and> i < length rows \<and> tester_row (rows ! i)
            \<and> (\<forall>j<i. \<not> tester_row (rows ! j)) \<longrightarrow> find_header_row nrows sh = i)
       \<and> (raw sh = Inr rows \<and> (\<forall>k. k < nrows \<and> k < length rows \<longrightarrow> \<not> tester_row (rows ! k))
            \<longrightarrow> find_header_row nrows sh = 0)
       \<and> (raw sh = Inl e \<longrightarrow> find_header_row nrows sh = 0)"
proof (intro conjI impI)
  assume a: "raw sh = Inr rows \<and> i < nrows \<and> i < length rows \<and> tester_row (rows ! i)
            \<and> (\<forall>j<i. \<not> tester_row (rows ! j))"
  then have "rows ! i \<noteq> []" by (auto simp: tester_row_def)
  moreover from a have "rows ! i \<in> set rows" by simp
  ultimately have "0 < w" using rect by fastforce
  with rect have ne: "\<forall>r\<in>set (take nrows rows). r \<noteq> []"
    by (fastforce dest: in_set_takeD)
  from a have len: "i < length (take nrows rows)" by simp
  from a have hit: "tester_row (take nrows rows ! i)" by simp
  from a have before: "\<forall>j<i. \<not> tester_row (take nrows rows ! j)" by simp
  from header_loop_found [OF ne len hit before, of 0]
  have "header_loop 0 (take nrows rows) = Inr i" by simp
  with a show "find_header_row nrows sh = i" by (simp add: find_header_row_def)
next
  assume a: "raw sh = Inr rows \<and> (\<forall>k. k < nrows \<and> k < length rows \<longrightarrow> \<not> tester_row (rows ! k))"
  have "\<forall>r\<in>set (take nrows rows). \<not> tester_row r"
  proof
    fix r assume "r \<in> set (take nrows rows)"
    then obtain k where "k < length (take nrows rows)" "take nrows rows ! k = r"
      by (auto simp: in_set_conv_nth)
    with a show "\<not> tester_row r" by auto
  qed
  from header_loop_none [OF this, of 0] a
  show "find_header_row nrows sh = 0" by (auto simp: find_header_row_def)
next
  assume "raw sh = Inl e"
  then show "find_header_row nrows sh = 0" by (simp add: find_header_row_def)
qed

theorem find_header_row_first_match_witness:
  "find_header_row 30 banner_sheet = 2 \<and> find_header_row 2 banner_sheet = 0
   \<and> find_header_row 30 broken_sheet = 0"
proof -
  let ?rows = "[[CStr ''Optical report'', CNaN], [CNaN, CNaN],
                [CStr '' Tester ID'', CStr ''CreateTime''], [CStr ''Tester'', CTime 0]] :: int cell list list"
  have rect: "\<forall>r\<in>set ?rows. length r = 2" by simp
  have sp: "strip '' Tester ID'' = ''Tester ID''" "strip ''Optical report'' = ''Optical report''"
    by (simp_all add: strip_def lstrip_def rstrip_def isspace_def)
  have t: "tester_row (?rows ! 2)" "\<not> tester_row (?rows ! 0)" "\<not> tester_row (?rows ! 1)"
    by (simp_all add: tester_row_def is_tester_def startswith_def sp)
  have lt2: "\<And>j::nat. j < 2 \<Longrightarrow> j = 0 \<or> j = 1" by arith
  have b: "\<forall>j<2. \<not> tester_row (?rows ! j)" using t lt2 by blast
  have h1: "raw banner_sheet = Inr ?rows \<and> (2::nat) < 30 \<and> 2 < length ?rows
            \<and> tester_row (?rows ! 2) \<and> (\<forall>j<2. \<not> tester_row (?rows ! j))"
    using t b by (simp add: banner_sheet_def)
  have h2: "raw banner_sheet = Inr ?rows
            \<and> (\<forall>k. k < 2 \<and> k < length ?rows \<longrightarrow> \<not> tester_row (?rows ! k))"
    using b by (simp add: banner_sheet_def)
  from find_header_row_first_match [OF rect, of banner_sheet 2 30] h1
  have "find_header_row 30 banner_sheet = 2" by blast
  moreover from find_header_row_first_match [OF rect, of banner_sheet _ 2] h2
  have "find_header_row 2 banner_sheet = 0" by blast
  moreover have "raw broken_sheet = Inl (ReadError ''bad zip'')"
    by (simp add: broken_sheet_def)
  with find_header_row_first_match [OF rect, of broken_sheet _ 30 "ReadError ''bad zip''"]
  have "find_header_row 30 broken_sheet = 0" by blast
  ultimately show ?thesis by blast
qed


section \<open>Invariants of the iteration over sheets and files\<close>

lemma sheets_loop_inv:
  assumes "\<forall>f\<in>set all_data. P f" and "\<And>sh m. ps sh = Inr (Some m) \<Longrightarrow> P m"
  shows "\<forall>f\<in>set (fst (sheets_loop ps shs all_data)). P f"
  using assms(1)
proof (induction shs arbitrary: all_data)
  case Nil
  then show ?case by simp
next
  case (Cons sh rest)
  show ?case
  proof (cases "ps sh")
    case (Inl e)
    with Cons.prems show ?thesis by simp
  next
    case (Inr r)
    show ?thesis
    proof (cases r)
      case None
      with Inr Cons show ?thesis by simp
    next
      case (Some m)
      with Inr assms(2) have "P m" by blast
      with Cons.prems have "\<forall>f\<in>set (all_data @ [m]). P f" by simp
      from Cons.IH [OF this] Inr Some show ?thesis by simp
    qed
  qed
qed

lemma files_loop_inv:
  assumes "\<forall>f\<in>set (fst st). P f" and "\<And>src sh m. ps src sh = Inr (Some m) \<Longrightarrow> P m"
  shows "\<forall>f\<in>set (fst (files_loop ps files st)). P f"
  using assms(1)
proof (induction files arbitrary: st)
  case Nil
  then show ?case by simp
next
  case (Cons uf rest)
  obtain all_data errors where st: "st = (all_data, errors)" by (cases st)
  show ?case
  proof (cases "workbook uf")
    case (Inl e)
    have "\<forall>f\<in>set (fst (all_data, errors @ [(file_name uf, e)])). P f"
      using Cons.prems st by simp
    from Cons.IH [OF this] Inl st show ?thesis by simp
  next
    case (Inr sheets)
    obtain ad err where sl: "sheets_loop (ps (file_name uf)) sheets all_data = (ad, err)"
      by (cases "sheets_loop (ps (file_name uf)) sheets all_data")
    have "\<forall>f\<in>set (fst (sheets_loop (ps (file_name uf)) sheets all_data)). P f"
      using Cons.prems st assms(2) by (intro sheets_loop_inv) auto
    with sl have ad: "\<forall>f\<in>set ad. P f" by simp
    show ?thesis
    proof (cases err)
      case None
      have "\<forall>f\<in>set (fst (ad, errors)). P f" using ad by simp
      from Cons.IH [OF this] Inr st sl None show ?thesis by simp
    next
      case (Some e)
      have "\<forall>f\<in>set (fst (ad, errors @ [(file_name uf, e)])). P f" using ad by simp
      from Cons.IH [OF this] Inr st sl Some show ?thesis by simp
    qed
  qed
qed

lemma sheet_side_cases: "sheet_side n = ''Left'' \<or> sheet_side n = ''Right''"
  by (simp add: sheet_side_def)

lemma process_sheet_rows:
  assumes "process_sheet to_datetime src sh = Inr (Some m)"
  shows "\<forall>r\<in>set m. Station_Generic r = get_station_name (Station_Raw r)
           \<and> Side r = sheet_side (sheet_name sh) \<and> Source r = src
           \<and> Direction r = get_direction (Station_Raw r) \<and> target_col (Station_Raw r)"
proof -
  from assms obtain df melted where
    m: "m = map (st_record (sheet_side (sheet_name sh)) src get_station_name) melted"
    and ml: "melt to_datetime df (filter (\<lambda>(c, vals). target_col c) df) = Inr melted"
    by (auto simp: process_sheet_def extract_sheet_def Let_def split: if_splits sum.splits)
  from ml have "\<forall>x\<in>set melted. target_col (fst (snd x))"
    by (auto simp: melt_def split: option.splits dest!: set_zip_rightD)
  with m show ?thesis by (auto simp: st_record_def)
qed




lemma process_sheet_0210v1_rows:
  assumes "process_sheet_0210v1 to_datetime src sh = Inr (Some m)"
  shows "\<forall>r\<in>set m. Station_Generic r = get_station_name_0210v1 (Station_Raw r)
           \<and> Side r = sheet_side (sheet_name sh) \<and> Source r = src
           \<and> Direction r = get_direction (Station_Raw r) \<and> target_col_0210v1 (Station_Raw r)"
proof -
  from assms obtain df melted where
    m: "m = map (st_record (sheet_side (sheet_name sh)) src get_station_name_0210v1) melted"
    and ml: "melt to_datetime df (filter (\<lambda>(c, vals). target_col_0210v1 c) df) = Inr melted"
    by (auto simp: process_sheet_0210v1_def Let_def split: if_splits sum.splits)
  from ml have "\<forall>x\<in>set melted. target_col_0210v1 (fst (snd x))"
    by (auto simp: melt_def split: option.splits dest!: set_zip_rightD)
  with m show ?thesis by (auto simp: st_record_def)
qed

lemma process_sheet_canonical:
  "\<forall>src sh m. process_sheet to_datetime src sh = Inr (Some m) \<longrightarrow> (\<forall>r\<in>set m. canonical_row r)"
  using get_station_name_range sheet_side_cases
  by (fastforce simp: canonical_row_def dest: process_sheet_rows)

lemma process_sheet_0210v1_canonical:
  "\<forall>src sh m. process_sheet_0210v1 to_datetime src sh = Inr (Some m) \<longrightarrow> (\<forall>r\<in>set m. canonical_row r)"
  using get_station_name_0210v1_range sheet_side_cases
  by (fastforce simp: canonical_row_def dest: process_sheet_0210v1_rows)

lemma all_data_canonical:
  assumes "\<forall>src sh m. ps src sh = Inr (Some m) \<longrightarrow> (\<forall>r\<in>set m. canonical_row r)"
  shows "\<forall>f\<in>set (all_data_of ps files). \<forall>r\<in>set f. canonical_row r"
  unfolding all_data_of_def
proof (rule files_loop_inv)
  show "\<forall>f\<in>set (fst ([], [])). \<forall>r\<in>set f. canonical_row r" by simp
next
  fix src sh m
  assume "ps src sh = Inr (Some m)"
  with assms show "\<forall>r\<in>set m. canonical_row r" by blast
qed

section \<open>The assembled table\<close>

lemma assemble_eq:
  "assemble to_numeric all_data =
     filter (\<lambda>r. Value r \<noteq> None \<and> Station_Generic r \<noteq> None)
       (map (to_numeric_Value to_numeric) (concat all_data))"
  by (simp add: assemble_def dropna_def)

lemma to_numeric_Value_fields [simp]:
  "CreateTime (to_numeric_Value tn r) = CreateTime r"
  "Station_Raw (to_numeric_Value tn r) = Station_Raw r"
  "Value (to_numeric_Value tn r) = tn (Value r)"
  "Side (to_numeric_Value tn r) = Side r"
  "Direction (to_numeric_Value tn r) = Direction r"
  "Station_Generic (to_numeric_Value tn r) = Station_Generic r"
  "Source (to_numeric_Value tn r) = Source r"
  by (simp_all add: to_numeric_Value_def)

lemma assembled_rows:
  assumes ps: "\<forall>src sh m. ps src sh = Inr (Some m) \<longrightarrow> (\<forall>r\<in>set m. canonical_row r)"
    and r: "r \<in> set (assemble to_numeric (all_data_of ps files))"
  shows "(\<exists>x. Value r = Some x) \<and> (\<exists>s\<in>set station_order. Station_Generic r = Some s)
         \<and> (Side r = ''Left'' \<or> Side r = ''Right'')"
proof -
  from r obtain f r0 where f: "f \<in> set (all_data_of ps files)" and r0: "r0 \<in> set f"
    and rr: "r = to_numeric_Value to_numeric r0"
    and v: "Value r \<noteq> None" and s: "Station_Generic r \<noteq> None"
    by (auto simp: assemble_eq)
  from all_data_canonical [OF ps, of files] f r0 have "canonical_row r0" by blast
  with rr have "canonical_row r" by (simp add: canonical_row_def)
  with v s show ?thesis by (auto simp: canonical_row_def)
qed

lemma process_uploaded_files_eq:
  "process_uploaded_files to_datetime to_numeric files =
     (assemble to_numeric (all_data_of (process_sheet to_datetime) files),
      snd (files_loop (process_sheet to_datetime) files ([], [])))"
  by (simp add: process_uploaded_files_def all_data_of_def split: prod.splits)

lemma process_uploaded_files_0210v1_eq:
  "process_uploaded_files_0210v1 to_datetime to_numeric files =
     (assemble to_numeric (all_data_of (process_sheet_0210v1 to_datetime) files),
      snd (files_loop (process_sheet_0210v1 to_datetime) files ([], [])))"
  by (simp add: process_uploaded_files_0210v1_def all_data_of_def split: prod.splits)

lemma assemble_invariant:
  assumes ps: "\<forall>src sh m. ps src sh = Inr (Some m) \<longrightarrow> (\<forall>r\<in>set m. canonical_row r)"
    and df: "df = assemble to_numeric (all_data_of ps files)"
  shows "(\<forall>r\<in>set df. (\<exists>x. Value r = Some x) \<and> (\<exists>s\<in>set station_order. Station_Generic r = Some s))
       \<and> df = filter (\<lambda>r. Value r \<noteq> None \<and> Station_Generic r \<noteq> None)
                (map (to_numeric_Value to_numeric) (concat (all_data_of ps files)))
       \<and> (\<forall>r\<in>set (map (to_numeric_Value to_numeric) (concat (all_data_of ps files))).
            CreateTime r = None \<and> Value r \<noteq> None \<and> Station_Generic r \<noteq> None \<longrightarrow> r \<in> set df)"
proof -
  have 1: "\<forall>r\<in>set df. (\<exists>x. Value r = Some x) \<and> (\<exists>s\<in>set station_order. Station_Generic r = Some s)"
    unfolding df using assembled_rows [OF ps, of _ to_numeric files] by blast
  have 2: "df = filter (\<lambda>r. Value r \<noteq> None \<and> Station_Generic r \<noteq> None)
                (map (to_numeric_Value to_numeric) (concat (all_data_of ps files)))"
    unfolding df by (rule assemble_eq)
  have 3: "\<forall>r\<in>set (map (to_numeric_Value to_numeric) (concat (all_data_of ps files))).
            CreateTime r = None \<and> Value r \<noteq> None \<and> Station_Generic r \<noteq> None \<longrightarrow> r \<in> set df"
  proof (intro ballI impI)
    fix r
    assume "r \<in> set (map (to_numeric_Value to_numeric) (concat (all_data_of ps files)))"
      and "CreateTime r = None \<and> Value r \<noteq> None \<and> Station_Generic r \<noteq> None"
    then have "r \<in> set (filter (\<lambda>r. Value r \<noteq> None \<and> Station_Generic r \<noteq> None)
                (map (to_numeric_Value to_numeric) (concat (all_data_of ps files))))"
      by simp
    then show "r \<in> set df" by (subst 2)
  qed
  from 1 2 3 show ?thesis by blast
qed

text \<open>
  Claim C4.  In the table that \<open>process_uploaded_files\<close> returns (0211v1 and 0210v1
  alike), every record has a numeric \<open>Value\<close> and one of the six canonical stations.
  The table is the concatenated, coerced table with exactly the records removed whose
  \<open>Value\<close> or \<open>Station_Generic\<close> is missing: a record of that table whose
  \<open>CreateTime\<close> is missing and whose \<open>Value\<close> and station are present is in the
  result.
\<close>

theorem final_table_invariant:
  "(process_uploaded_files to_datetime to_numeric files = (df, errors) \<longrightarrow>
      (\<forall>r\<in>set df. (\<exists>x. Value r = Some x) \<and> (\<exists>s\<in>set station_order. Station_Generic r = Some s))
    \<and> df = filter (\<lambda>r. Value r \<noteq> None \<and> Station_Generic r \<noteq> None)
             (map (to_numeric_Value to_numeric)
                (concat (all_data_of (process_sheet to_datetime) files)))
    \<and> (\<forall>r\<in>set (map (to_numeric_Value to_numeric)
                  (concat (all_data_of (process_sheet to_datetime) files))).
         CreateTime r = None \<and> Value r \<noteq> None \<and> Station_Generic r \<noteq> None \<longrightarrow> r \<in> set df))
   \<and> (process_uploaded_files_0210v1 to_datetime to_numeric files = (df', errors') \<longrightarrow>
      (\<forall>r\<in>set df'. (\<exists>x. Value r = Some x) \<and> (\<exists>s\<in>set station_order. Station_Generic r = Some s))
    \<and> df' = filter (\<lambda>r. Value r \<noteq> None \<and> Station_Generic r \<noteq> None)
             (map (to_numeric_Value to_numeric)
                (concat (all_data_of (process_sheet_0210v1 to_datetime) files)))
    \<and> (\<forall>r\<in>set (map (to_numeric_Value to_numeric)
                  (concat (all_data_of (process_sheet_0210v1 to_datetime) files))).
         CreateTime r = None \<and> Value r \<noteq> None \<and> Station_Generic r \<noteq> None \<longrightarrow> r \<in> set df'))"
proof (rule conjI; rule impI)
  assume "process_uploaded_files to_datetime to_numeric files = (df, errors)"
  then have df: "df = assemble to_numeric (all_data_of (process_sheet to_datetime) files)"
    by (simp add: process_uploaded_files_eq)
  show "(\<forall>r\<in>set df. (\<exists>x. Value r = Some x) \<and> (\<exists>s\<in>set station_order. Station_Generic r = Some s))
    \<and> df = filter (\<lambda>r. Value r \<noteq> None \<and> Station_Generic r \<noteq> None)
             (map (to_numeric_Value to_numeric)
                (concat (all_data_of (process_sheet to_datetime) files)))
    \<and> (\<forall>r\<in>set (map (to_numeric_Value to_numeric)
                  (concat (all_data_of (process_sheet to_datetime) files))).
         CreateTime r = None \<and> Value r \<noteq> None \<and> Station_Generic r \<noteq> None \<longrightarrow> r \<in> set df)"
    by (rule assemble_invariant [OF process_sheet_canonical df])
next
  assume "process_uploaded_files_0210v1 to_datetime to_numeric files = (df', errors')"
  then have df: "df' = assemble to_numeric (all_data_of (process_sheet_0210v1 to_datetime) files)"
    by (simp add: process_uploaded_files_0210v1_eq)
  show "(\<forall>r\<in>set df'. (\<exists>x. Value r = Some x) \<and> (\<exists>s\<in>set station_order. Station_Generic r = Some s))
    \<and> df' = filter (\<lambda>r. Value r \<noteq> None \<and> Station_Generic r \<noteq> None)
             (map (to_numeric_Value to_numeric)
                (concat (all_data_of (process_sheet_0210v1 to_datetime) files)))
    \<and> (\<forall>r\<in>set (map (to_numeric_Value to_numeric)
                  (concat (all_data_of (process_sheet_0210v1 to_datetime) files))).
         CreateTime r = None \<and> Value r \<noteq> None \<and> Station_Generic r \<noteq> None \<longrightarrow> r \<in> set df')"
    by (rule assemble_invariant [OF process_sheet_0210v1_canonical df])
qed

lemmas eval_defs = process_uploaded_files_def process_sheet_def extract_sheet_def assemble_def dropna_def
  to_numeric_Value_def melt_def st_record_def good_file_def good_sheet_def good_table_def
  to_datetime_ex_def to_numeric_ex_def find_header_row_def is_tester_def startswith_def
  strip_def lstrip_def rstrip_def isspace_def allow_set_def sheet_side_def target_col_def
  get_station_name_def get_direction_def good_row_def Let_def
  process_uploaded_files_0210v1_def process_sheet_0210v1_def target_col_0210v1_def
  get_station_name_0210v1_def

theorem final_table_invariant_witness:
  "process_uploaded_files to_datetime_ex to_numeric_ex [good_file] = ([good_row], [])
   \<and> process_uploaded_files_0210v1 to_datetime_ex to_numeric_ex [good_file] = ([good_row], [])
   \<and> CreateTime good_row = None \<and> Value good_row = Some 1
   \<and> Station_Generic good_row = Some ''AA''
   \<and> good_row \<in> set (map (to_numeric_Value to_numeric_ex)
        (concat (all_data_of (process_sheet to_datetime_ex) [good_file])))
   \<and> good_row \<in> set (map (to_numeric_Value to_numeric_ex)
        (concat (all_data_of (process_sheet_0210v1 to_datetime_ex) [good_file])))
   \<and> length (concat (all_data_of (process_sheet to_datetime_ex) [good_file])) = 4"
proof -
  have e: "process_uploaded_files to_datetime_ex to_numeric_ex [good_file] = ([good_row], [])"
    by (simp add: eval_defs)
  have e': "process_uploaded_files_0210v1 to_datetime_ex to_numeric_ex [good_file] = ([good_row], [])"
    by (simp add: eval_defs)
  have a: "length (concat (all_data_of (process_sheet to_datetime_ex) [good_file])) = 4"
    by (simp add: all_data_of_def eval_defs)
  have g: "CreateTime good_row = None \<and> Value good_row = Some 1
      \<and> Station_Generic good_row = Some ''AA''"
    by (simp add: good_row_def)
  have mem: "\<And>xs P. [good_row] = filter P xs \<Longrightarrow> good_row \<in> set xs"
    by (metis filter_is_subset list.set_intros(1) subsetD)
  from final_table_invariant [of to_datetime_ex to_numeric_ex "[good_file]" "[good_row]" "[]"
      "[good_row]" "[]"] e e'
  have "[good_row] = filter (\<lambda>r. Value r \<noteq> None \<and> Station_Generic r \<noteq> None)
      (map (to_numeric_Value to_numeric_ex)
         (concat (all_data_of (process_sheet to_datetime_ex) [good_file])))"
    and "[good_row] = filter (\<lambda>r. Value r \<noteq> None \<and> Station_Generic r \<noteq> None)
      (map (to_numeric_Value to_numeric_ex)
         (concat (all_data_of (process_sheet_0210v1 to_datetime_ex) [good_file])))"
    by blast+
  then have "good_row \<in> set (map (to_numeric_Value to_numeric_ex)
        (concat (all_data_of (process_sheet to_datetime_ex) [good_file])))"
    and "good_row \<in> set (map (to_numeric_Value to_numeric_ex)
        (concat (all_data_of (process_sheet_0210v1 to_datetime_ex) [good_file])))"
    using mem by blast+
  with e e' a g show ?thesis by blast
qed


section \<open>A failing sheet in a batch\<close>

lemmas eval_defs_0210v2 = process_data_def process_sheet_0210v2_def jmp_record_def
  to_numeric_Value_0210v2_def add_keys_def get_sort_key_def order_map_def station_order_def
  no_time_file_def no_time_sheet_def good_jmp_row_def

text \<open>
  Claim C5.  An exception while one file is processed is caught for that file, reported
  under its name, and the remaining files are processed.  The web variants do so
  (\<open>web_batch_continues\<close> below).  \<open>process_data\<close> of 0210v2 does not: with a
  workbook whose sheet \<open>RAA-R\<close> has no column \<open>CreateTime\<close> before a workbook that
  is read without error alone, \<open>melt\<close> raises \<open>KeyError\<close> outside any \<open>try\<close> and the
  whole batch ends with that exception, whereas \<open>process_uploaded_files\<close> of 0211v1
  reports the first file and returns the records of the second.
\<close>

theorem process_data_aborts:
  "process_data to_datetime_ex to_numeric_ex [good_file] = Inr [good_jmp_row]
   \<and> process_data to_datetime_ex to_numeric_ex [no_time_file, good_file]
       = Inl (KeyError ''CreateTime'')
   \<and> process_uploaded_files to_datetime_ex to_numeric_ex [no_time_file, good_file]
       = ([good_row], [(''b.xlsx'', KeyError ''CreateTime'')])"
proof -
  have 1: "process_data to_datetime_ex to_numeric_ex [good_file] = Inr [good_jmp_row]"
    by (simp add: eval_defs eval_defs_0210v2)
  have 2: "process_data to_datetime_ex to_numeric_ex [no_time_file, good_file]
       = Inl (KeyError ''CreateTime'')"
    by (simp add: eval_defs eval_defs_0210v2)
  have 3: "process_uploaded_files to_datetime_ex to_numeric_ex [no_time_file, good_file]
       = ([good_row], [(''b.xlsx'', KeyError ''CreateTime'')])"
    by (simp add: eval_defs eval_defs_0210v2)
  from 1 2 3 show ?thesis by blast
qed

text \<open>
  Claim C7.  A sheet whose stripped name is in the allow-set is processed, with the side
  taken from its name.  0211v1 does so (\<open>process_sheet_allow_set\<close> below).  0210v1 and
  0210v2 test the name as it is: the sheet named \<open>RAA-R\<close> followed by a space, whose
  stripped name is \<open>RAA-R\<close>, is skipped by both and processed as a right-side sheet
  by 0211v1.
\<close>

theorem padded_sheet_skipped:
  "strip (sheet_name padded_sheet) = ''RAA-R''
   \<and> process_sheet_0210v1 to_datetime_ex ''a.xlsx'' padded_sheet = Inr None
   \<and> process_sheet_0210v2 to_datetime_ex padded_sheet = Inr None
   \<and> process_sheet to_datetime_ex ''a.xlsx'' padded_sheet = Inr (Some padded_rows)"
proof -
  have 1: "strip (sheet_name padded_sheet) = ''RAA-R''"
    by (simp add: padded_sheet_def eval_defs)
  have 2: "process_sheet_0210v1 to_datetime_ex ''a.xlsx'' padded_sheet = Inr None"
    by (simp add: padded_sheet_def eval_defs)
  have 3: "process_sheet_0210v2 to_datetime_ex padded_sheet = Inr None"
    by (simp add: padded_sheet_def eval_defs eval_defs_0210v2)
  have 4: "process_sheet to_datetime_ex ''a.xlsx'' padded_sheet = Inr (Some padded_rows)"
    by (simp add: padded_sheet_def padded_rows_def eval_defs)
  from 1 2 3 4 show ?thesis by blast
qed


section \<open>The web variants go on after a failing file\<close>

lemma sheets_loop_acc:
  "sheets_loop ps shs all_data
     = (all_data @ fst (sheets_loop ps shs []), snd (sheets_loop ps shs []))"
proof (induction shs arbitrary: all_data)
  case Nil
  then show ?case by simp
next
  case (Cons sh rest)
  show ?case
  proof (cases "ps sh")
    case (Inl e)
    then show ?thesis by simp
  next
    case (Inr r)
    show ?thesis
    proof (cases r)
      case None
      with Inr Cons.IH [of all_data] show ?thesis by simp
    next
      case (Some m)
      with Inr Cons.IH [of "all_data @ [m]"] Cons.IH [of "[m]"] show ?thesis by simp
    qed
  qed
qed

lemma files_loop_acc:
  "files_loop ps files (all_data, errors)
     = (all_data @ fst (files_loop ps files ([], [])), errors @ snd (files_loop ps files ([], [])))"
proof (induction files arbitrary: all_data errors)
  case Nil
  then show ?case by simp
next
  case (Cons uf rest)
  show ?case
  proof (cases "workbook uf")
    case (Inl e)
    with Cons.IH [of all_data "errors @ [(file_name uf, e)]"] Cons.IH [of "[]" "[(file_name uf, e)]"]
    show ?thesis by simp
  next
    case (Inr sheets)
    obtain ad err where sl: "sheets_loop (ps (file_name uf)) sheets [] = (ad, err)"
      by (cases "sheets_loop (ps (file_name uf)) sheets []")
    with sheets_loop_acc [of "ps (file_name uf)" sheets all_data]
    have sl': "sheets_loop (ps (file_name uf)) sheets all_data = (all_data @ ad, err)" by simp
    show ?thesis
    proof (cases err)
      case None
      with Inr sl sl' Cons.IH [of "all_data @ ad" errors] Cons.IH [of ad "[]"]
      show ?thesis by simp
    next
      case (Some e)
      with Inr sl sl' Cons.IH [of "all_data @ ad" "errors @ [(file_name uf, e)]"]
        Cons.IH [of ad "[(file_name uf, e)]"]
      show ?thesis by simp
    qed
  qed
qed

lemma files_loop_append:
  "files_loop ps (fs @ gs) st = files_loop ps gs (files_loop ps fs st)"
proof (induction fs arbitrary: st)
  case Nil
  then show ?case by simp
next
  case (Cons uf rest)
  obtain all_data errors where st: "st = (all_data, errors)" by (cases st)
  show ?case unfolding st
    by (simp add: Cons.IH split: sum.splits prod.splits option.splits)
qed

lemma web_batch_continues:
  "all_data_of ps (fs @ uf # gs) = all_data_of ps fs @ all_data_of ps [uf] @ all_data_of ps gs
   \<and> snd (files_loop ps (fs @ uf # gs) ([], []))
       = snd (files_loop ps fs ([], [])) @ snd (files_loop ps [uf] ([], []))
         @ snd (files_loop ps gs ([], []))
   \<and> (workbook uf = Inl e \<longrightarrow> files_loop ps [uf] ([], []) = ([], [(file_name uf, e)]))
   \<and> (workbook uf = Inr shs \<and> snd (sheets_loop (ps (file_name uf)) shs []) = Some e \<longrightarrow>
        files_loop ps [uf] ([], [])
          = (fst (sheets_loop (ps (file_name uf)) shs []), [(file_name uf, e)]))"
proof -
  have split: "\<And>xs ys. files_loop ps (xs @ ys) ([], [])
      = (fst (files_loop ps xs ([], [])) @ fst (files_loop ps ys ([], [])),
         snd (files_loop ps xs ([], [])) @ snd (files_loop ps ys ([], [])))"
  proof -
    fix xs ys
    obtain a b where x: "files_loop ps xs ([], []) = (a, b)" by (cases "files_loop ps xs ([], [])")
    from files_loop_acc [of ps ys a b] x show "files_loop ps (xs @ ys) ([], [])
      = (fst (files_loop ps xs ([], [])) @ fst (files_loop ps ys ([], [])),
         snd (files_loop ps xs ([], [])) @ snd (files_loop ps ys ([], [])))"
      by (simp add: files_loop_append)
  qed
  have "files_loop ps (fs @ uf # gs) ([], []) = files_loop ps (fs @ ([uf] @ gs)) ([], [])" by simp
  also note split [of fs "[uf] @ gs"]
  finally have "files_loop ps (fs @ uf # gs) ([], [])
      = (fst (files_loop ps fs ([], [])) @ fst (files_loop ps [uf] ([], []))
           @ fst (files_loop ps gs ([], [])),
         snd (files_loop ps fs ([], [])) @ snd (files_loop ps [uf] ([], []))
           @ snd (files_loop ps gs ([], [])))"
    by (simp only: split [of "[uf]" gs] fst_conv snd_conv)
  then have 1: "all_data_of ps (fs @ uf # gs)
        = all_data_of ps fs @ all_data_of ps [uf] @ all_data_of ps gs"
    and 2: "snd (files_loop ps (fs @ uf # gs) ([], []))
       = snd (files_loop ps fs ([], [])) @ snd (files_loop ps [uf] ([], []))
         @ snd (files_loop ps gs ([], []))"
    by (simp_all add: all_data_of_def)
  have 3: "workbook uf = Inl e \<longrightarrow> files_loop ps [uf] ([], []) = ([], [(file_name uf, e)])"
    by simp
  have 4: "workbook uf = Inr shs \<and> snd (sheets_loop (ps (file_name uf)) shs []) = Some e \<longrightarrow>
        files_loop ps [uf] ([], [])
          = (fst (sheets_loop (ps (file_name uf)) shs []), [(file_name uf, e)])"
    by (auto split: prod.splits option.splits)
  from 1 2 3 4 show ?thesis by blast
qed

section \<open>The allow-set and the side in 0211v1\<close>

lemma is_in_dropWhile:
  assumes "\<not> P a"
  shows "is_in (a # p) (dropWhile P s) = is_in (a # p) s"
  using assms by (induction s) auto

lemma is_in_rev: "is_in (rev p) (rev s) = is_in p s"
proof -
  have "(\<exists>ps ss. rev s = ps @ rev p @ ss) \<longleftrightarrow> (\<exists>ps ss. s = ps @ p @ ss)"
  proof
    assume "\<exists>ps ss. rev s = ps @ rev p @ ss"
    then obtain ps ss where "rev s = ps @ rev p @ ss" by blast
    then have "rev (rev s) = rev (ps @ rev p @ ss)" by simp
    then have "s = rev ss @ p @ rev ps" by simp
    then show "\<exists>ps ss. s = ps @ p @ ss" by blast
  next
    assume "\<exists>ps ss. s = ps @ p @ ss"
    then obtain ps ss where "s = ps @ p @ ss" by blast
    then have "rev s = rev ss @ rev p @ rev ps" by simp
    then show "\<exists>ps ss. rev s = ps @ rev p @ ss" by blast
  qed
  then show ?thesis by (simp add: is_in_iff)
qed

lemma is_in_dash_R_strip: "is_in ''-R'' (strip s) = is_in ''-R'' s"
proof -
  have d: "\<not> isspace CHR ''-''" and r: "\<not> isspace CHR ''R''"
    by (simp_all add: isspace_def)
  have "is_in ''-R'' (rstrip t) = is_in ''-R'' t" for t
  proof -
    have "is_in ''-R'' (rstrip t) = is_in (rev ''R-'') (rev (dropWhile isspace (rev t)))"
      by (simp add: rstrip_def)
    also have "\<dots> = is_in ''R-'' (dropWhile isspace (rev t))" by (rule is_in_rev)
    also have "\<dots> = is_in ''R-'' (rev t)" using r by (rule is_in_dropWhile)
    also have "\<dots> = is_in (rev ''-R'') (rev t)" by simp
    also have "\<dots> = is_in ''-R'' t" by (rule is_in_rev)
    finally show ?thesis .
  qed
  then have "is_in ''-R'' (strip s) = is_in ''-R'' (lstrip s)" by (simp add: strip_def)
  also have "\<dots> = is_in ''-R'' s" unfolding lstrip_def using d by (rule is_in_dropWhile)
  finally show ?thesis .
qed

lemma process_sheet_allow_set:
  "(strip (sheet_name sh) \<notin> set allow_set \<longrightarrow> process_sheet to_datetime src sh = Inr None)
   \<and> (strip (sheet_name sh) \<in> set allow_set \<longrightarrow>
        process_sheet to_datetime src sh = extract_sheet to_datetime src sh
        \<and> sheet_side (sheet_name sh)
            = (if strip (sheet_name sh) = ''RAA-R'' \<or> strip (sheet_name sh) = ''IPQC-R''
               then ''Right'' else ''Left''))
   \<and> (\<forall>m. process_sheet to_datetime src sh = Inr (Some m) \<longrightarrow>
        (\<forall>r\<in>set m. Side r = sheet_side (sheet_name sh)))"
proof -
  have 1: "strip (sheet_name sh) \<notin> set allow_set \<longrightarrow> process_sheet to_datetime src sh = Inr None"
    by (simp add: process_sheet_def)
  have 2: "strip (sheet_name sh) \<in> set allow_set \<longrightarrow>
        process_sheet to_datetime src sh = extract_sheet to_datetime src sh
        \<and> sheet_side (sheet_name sh)
            = (if strip (sheet_name sh) = ''RAA-R'' \<or> strip (sheet_name sh) = ''IPQC-R''
               then ''Right'' else ''Left'')"
  proof
    assume a: "strip (sheet_name sh) \<in> set allow_set"
    have "sheet_side (sheet_name sh)
        = (if is_in ''-R'' (strip (sheet_name sh)) then ''Right'' else ''Left'')"
      by (simp add: sheet_side_def is_in_dash_R_strip)
    with a show "process_sheet to_datetime src sh = extract_sheet to_datetime src sh
        \<and> sheet_side (sheet_name sh)
            = (if strip (sheet_name sh) = ''RAA-R'' \<or> strip (sheet_name sh) = ''IPQC-R''
               then ''Right'' else ''Left'')"
      by (auto simp: process_sheet_def allow_set_def)
  qed
  have 3: "\<forall>m. process_sheet to_datetime src sh = Inr (Some m) \<longrightarrow>
        (\<forall>r\<in>set m. Side r = sheet_side (sheet_name sh))"
    using process_sheet_rows by blast
  from 1 2 3 show ?thesis by blast
qed


section \<open>The sort key of 0210v2\<close>

lemma sheets_loop_0210v2_inv:
  assumes "\<forall>f\<in>set all_data. P f" and "\<forall>sh m. ps sh = Inr (Some m) \<longrightarrow> P m"
    and "sheets_loop_0210v2 ps shs all_data = Inr out"
  shows "\<forall>f\<in>set out. P f"
  using assms(1,3)
proof (induction shs arbitrary: all_data)
  case Nil
  then show ?case by simp
next
  case (Cons sh rest)
  show ?case
  proof (cases "ps sh")
    case (Inl e)
    with Cons.prems show ?thesis by simp
  next
    case (Inr r)
    show ?thesis
    proof (cases r)
      case None
      with Inr Cons show ?thesis by simp
    next
      case (Some m)
      with Inr assms(2) have "P m" by blast
      with Cons.prems have "\<forall>f\<in>set (all_data @ [m]). P f" by simp
      moreover from Cons.prems(2) Inr Some
      have "sheets_loop_0210v2 ps rest (all_data @ [m]) = Inr out" by simp
      ultimately show ?thesis by (rule Cons.IH)
    qed
  qed
qed

lemma files_loop_0210v2_inv:
  assumes "\<forall>f\<in>set all_data. P f" and "\<forall>sh m. ps sh = Inr (Some m) \<longrightarrow> P m"
    and "files_loop_0210v2 ps files all_data = Inr out"
  shows "\<forall>f\<in>set out. P f"
  using assms(1,3)
proof (induction files arbitrary: all_data)
  case Nil
  then show ?case by simp
next
  case (Cons uf rest)
  show ?case
  proof (cases "workbook uf")
    case (Inl e)
    with Cons show ?thesis by simp
  next
    case (Inr sheets)
    show ?thesis
    proof (cases "sheets_loop_0210v2 ps sheets all_data")
      case (Inl e)
      with Inr Cons.prems show ?thesis by simp
    next
      case inner: (Inr ad)
      from Cons.prems(1) assms(2) inner have "\<forall>f\<in>set ad. P f"
        by (rule sheets_loop_0210v2_inv)
      moreover from Cons.prems(2) Inr inner have "files_loop_0210v2 ps rest ad = Inr out"
        by simp
      ultimately show ?thesis by (rule Cons.IH)
    qed
  qed
qed

lemma process_sheet_0210v2_canonical:
  "\<forall>sh m. process_sheet_0210v2 to_datetime sh = Inr (Some m) \<longrightarrow> (\<forall>r\<in>set m. canonical_row r)"
proof (intro allI impI)
  fix sh m
  assume "process_sheet_0210v2 to_datetime sh = Inr (Some m)"
  then obtain melted where "m = map (jmp_record (sheet_side (sheet_name sh))) melted"
    by (auto simp: process_sheet_0210v2_def Let_def split: if_splits sum.splits)
  then show "\<forall>r\<in>set m. canonical_row r"
    using get_station_name_0210v1_range sheet_side_cases
    by (fastforce simp: canonical_row_def jmp_record_def)
qed

lemma order_map_nth:
  "i < length station_order \<Longrightarrow> order_map (station_order ! i) = Some (int i)"
proof -
  assume "i < length station_order"
  then have "i < 6" by (simp add: station_order_def)
  then have "i = 0 \<or> i = 1 \<or> i = 2 \<or> i = 3 \<or> i = 4 \<or> i = 5" by arith
  then show ?thesis
    by (elim disjE) (simp_all add: order_map_def station_order_def upt_rec)
qed

lemma order_map_None: "s \<notin> set station_order \<Longrightarrow> order_map s = None"
  by (simp add: order_map_def station_order_def upt_rec)

lemma get_sort_key_canonical:
  assumes "i < length station_order" and "Station_Generic r = Some (station_order ! i)"
  shows "get_sort_key r = int i + (if Side r = ''Left'' then 0 else 100)"
  using assms by (simp add: get_sort_key_def order_map_nth)

lemma get_sort_key_sentinel:
  assumes "Station_Generic r \<notin> Some ` set station_order"
  shows "get_sort_key r = 99 + (if Side r = ''Left'' then 0 else 100)"
proof (cases "Station_Generic r")
  case None
  then show ?thesis by (simp add: get_sort_key_def)
next
  case (Some s)
  with assms have "s \<notin> set station_order" by auto
  with Some show ?thesis by (simp add: get_sort_key_def order_map_None)
qed

lemma add_keys_fields [simp]:
  "Station_Generic (add_keys r) = Station_Generic r"
  "Side (add_keys r) = Side r"
  "Sort_Key (add_keys r) = get_sort_key r"
  "Value (add_keys r) = Value r"
  by (simp_all add: add_keys_def)

lemma to_numeric_Value_0210v2_fields [simp]:
  "Station_Generic (to_numeric_Value_0210v2 tn r) = Station_Generic r"
  "Side (to_numeric_Value_0210v2 tn r) = Side r"
  "Value (to_numeric_Value_0210v2 tn r) = tn (Value r)"
  by (simp_all add: to_numeric_Value_0210v2_def)

lemma process_data_rows:
  assumes "process_data to_datetime to_numeric files = Inr df" and "r \<in> set df"
  shows "(Side r = ''Left'' \<or> Side r = ''Right'')
       \<and> (\<exists>i<length station_order. Station_Generic r = Some (station_order ! i)
             \<and> Sort_Key r = int i + (if Side r = ''Left'' then 0 else 100))"
proof -
  from assms obtain all_data where
    fl: "files_loop_0210v2 (process_sheet_0210v2 to_datetime) files [] = Inr all_data"
    and df: "df = map add_keys (dropna (map (to_numeric_Value_0210v2 to_numeric) (concat all_data)))"
    by (auto simp: process_data_def split: if_splits sum.splits)
  have "\<forall>f\<in>set all_data. \<forall>r\<in>set f. canonical_row r"
    by (rule files_loop_0210v2_inv [OF _ process_sheet_0210v2_canonical fl]) simp
  moreover from assms(2) df obtain f r0 where "f \<in> set all_data" "r0 \<in> set f"
    and r: "r = add_keys (to_numeric_Value_0210v2 to_numeric r0)"
    and st: "Station_Generic r0 \<noteq> None"
    by (auto simp: dropna_def)
  ultimately have c: "canonical_row r0" by blast
  with st obtain s where s: "Station_Generic r0 = Some s" "s \<in> set station_order"
    by (auto simp: canonical_row_def)
  then obtain i where i: "i < length station_order" "station_order ! i = s"
    by (auto simp: in_set_conv_nth)
  from c r have side: "Side r = ''Left'' \<or> Side r = ''Right''"
    by (simp add: canonical_row_def)
  from i s r have "Station_Generic r = Some (station_order ! i)" by simp
  moreover from i s r
  have "Sort_Key r = int i + (if Side r = ''Left'' then 0 else 100)"
    by (simp add: get_sort_key_canonical [of i])
  ultimately show ?thesis using side i by blast
qed

lemma station_order_distinct: "distinct station_order"
  by (simp add: station_order_def)

text \<open>
  Claim C6.  For every record of the table that \<open>process_data\<close> returns, the station
  is one of the six of \<open>station_order\<close> and \<open>Sort_Key\<close> is its index there, plus 0
  when \<open>Side\<close> is \<open>Left\<close> and plus 100 when it is \<open>Right\<close>.  So a left record has
  a smaller key than a right record, and two records of one side are ordered as their
  stations are in \<open>station_order\<close>.  For a station outside the list
  \<open>get_sort_key\<close> uses the index 99, above every index of the list; it has a result
  for every row.
\<close>

theorem sort_key_order:
  assumes "process_data to_datetime to_numeric files = Inr df" and "r \<in> set df" and "r' \<in> set df"
  shows "(Side r = ''Left'' \<or> Side r = ''Right'')
       \<and> (\<exists>i<length station_order. Station_Generic r = Some (station_order ! i)
             \<and> Sort_Key r = int i + (if Side r = ''Left'' then 0 else 100))
       \<and> (Side r = ''Left'' \<and> Side r' = ''Right'' \<longrightarrow> Sort_Key r < Sort_Key r')
       \<and> (\<forall>i j. Side r = Side r' \<and> i < length station_order \<and> j < length station_order
             \<and> Station_Generic r = Some (station_order ! i)
             \<and> Station_Generic r' = Some (station_order ! j)
             \<longrightarrow> (Sort_Key r < Sort_Key r' \<longleftrightarrow> i < j))
       \<and> (Station_Generic row \<notin> Some ` set station_order \<longrightarrow>
             get_sort_key row = 99 + (if Side row = ''Left'' then 0 else 100)
             \<and> (\<forall>i<length station_order. int i < 99))"
proof -
  from process_data_rows [OF assms(1,2)] obtain i where
    side: "Side r = ''Left'' \<or> Side r = ''Right''" and i: "i < length station_order"
    and si: "Station_Generic r = Some (station_order ! i)"
    and ki: "Sort_Key r = int i + (if Side r = ''Left'' then 0 else 100)"
    by blast
  from process_data_rows [OF assms(1,3)] obtain j where
    j: "j < length station_order"
    and sj: "Station_Generic r' = Some (station_order ! j)"
    and kj: "Sort_Key r' = int j + (if Side r' = ''Left'' then 0 else 100)"
    by blast
  have len: "length station_order = 6" by (simp add: station_order_def)
  have 3: "Side r = ''Left'' \<and> Side r' = ''Right'' \<longrightarrow> Sort_Key r < Sort_Key r'"
    using i j ki kj len by auto
  have 4: "\<forall>a b. Side r = Side r' \<and> a < length station_order \<and> b < length station_order
             \<and> Station_Generic r = Some (station_order ! a)
             \<and> Station_Generic r' = Some (station_order ! b)
             \<longrightarrow> (Sort_Key r < Sort_Key r' \<longleftrightarrow> a < b)"
  proof (intro allI impI)
    fix a b
    assume h: "Side r = Side r' \<and> a < length station_order \<and> b < length station_order
             \<and> Station_Generic r = Some (station_order ! a)
             \<and> Station_Generic r' = Some (station_order ! b)"
    with si i have "a = i"
      using station_order_distinct by (auto simp: nth_eq_iff_index_eq)
    moreover from h sj j have "b = j"
      using station_order_distinct by (auto simp: nth_eq_iff_index_eq)
    ultimately show "Sort_Key r < Sort_Key r' \<longleftrightarrow> a < b"
      using ki kj h by auto
  qed
  have 5: "Station_Generic row \<notin> Some ` set station_order \<longrightarrow>
             get_sort_key row = 99 + (if Side row = ''Left'' then 0 else 100)
             \<and> (\<forall>i<length station_order. int i < 99)"
    using get_sort_key_sentinel [of row] len by auto
  from side i si ki 3 4 5 show ?thesis by blast
qed

theorem sort_key_order_witness:
  "process_data to_datetime_ex to_numeric_ex [two_side_file] = Inr [right_jmp_row, good_jmp_row]
   \<and> Sort_Key good_jmp_row = 2 \<and> Sort_Key right_jmp_row = 102
   \<and> Sort_Key good_jmp_row < Sort_Key right_jmp_row
   \<and> get_sort_key (good_jmp_row\<lparr>Station_Generic := Some ''Rework''\<rparr>) = 99"
proof -
  have e: "process_data to_datetime_ex to_numeric_ex [two_side_file]
      = Inr [right_jmp_row, good_jmp_row]"
    by (simp add: eval_defs eval_defs_0210v2 two_side_file_def right_sheet_def right_jmp_row_def)
  have k: "Sort_Key good_jmp_row = 2 \<and> Sort_Key right_jmp_row = 102"
    by (simp add: good_jmp_row_def right_jmp_row_def)
  have sides: "Side good_jmp_row = ''Left'' \<and> Side right_jmp_row = ''Right''"
    by (simp add: good_jmp_row_def right_jmp_row_def)
  have nc: "Station_Generic (good_jmp_row\<lparr>Station_Generic := Some ''Rework''\<rparr>)
      \<notin> Some ` set station_order"
    by (simp add: station_order_def)
  have sl: "Side (good_jmp_row\<lparr>Station_Generic := Some ''Rework''\<rparr>) = ''Left''"
    by (simp add: good_jmp_row_def)
  from sort_key_order [OF e, of good_jmp_row right_jmp_row
      "good_jmp_row\<lparr>Station_Generic := Some ''Rework''\<rparr>"] sides nc sl
  have "Sort_Key good_jmp_row < Sort_Key right_jmp_row
      \<and> get_sort_key (good_jmp_row\<lparr>Station_Generic := Some ''Rework''\<rparr>) = 99"
    by simp
  with e k show ?thesis by blast
qed


section \<open>The page on an empty table\<close>


lemma main_ui_empty:
  "process_uploaded_files td tn files = ([], errors) \<Longrightarrow>
   main_ui td tn files clicked
     = (if files \<noteq> [] \<and> clicked then map (\<lambda>(n, e). ReadFailed n e) errors @ [CannotParse]
        else [])"
  unfolding main_ui_def report_branch_def by simp

lemma ReadFailed_only:
  "x \<in> set (map (\<lambda>(n, e). ReadFailed n e) errors) \<Longrightarrow> \<exists>n e. x = ReadFailed n e"
  by (induction errors) auto

section \<open>The empty batch\<close>

lemma sheets_loop_skip:
  "\<forall>sh\<in>set shs. ps sh = Inr None \<Longrightarrow> sheets_loop ps shs all_data = (all_data, None)"
  by (induction shs) simp_all

lemma process_sheet_skip:
  "skipped_sheet sh \<Longrightarrow> process_sheet to_datetime src sh = Inr None"
  by (auto simp: skipped_sheet_def process_sheet_def extract_sheet_def Let_def split: sum.splits)

lemma files_loop_skip:
  "list_all readable_without_records files \<Longrightarrow>
   files_loop (process_sheet to_datetime) files st = st"
proof (induction files arbitrary: st)
  case Nil
  then show ?case by simp
next
  case (Cons uf rest)
  obtain all_data errors where st: "st = (all_data, errors)" by (cases st)
  from Cons.prems obtain shs where w: "workbook uf = Inr shs" and sk: "list_all skipped_sheet shs"
    by (auto simp: readable_without_records_def split: sum.splits)
  from sk have "\<forall>sh\<in>set shs. process_sheet to_datetime (file_name uf) sh = Inr None"
    by (simp add: list_all_iff process_sheet_skip)
  then have "sheets_loop (process_sheet to_datetime (file_name uf)) shs all_data = (all_data, None)"
    by (rule sheets_loop_skip)
  with w st Cons show ?case by simp
qed

text \<open>
  Claim C8, amended.  \<open>process_uploaded_files\<close> returns the empty table, and no
  error, for zero files and for any batch of workbooks that open and whose sheets are
  all outside the allow-set or without target columns.  When at least one file is
  uploaded and the button is pressed, an empty table makes the page show the errors of
  the files that failed followed by the message that the data cannot be parsed, and
  nothing else: that message alone when no file failed.  With zero files, or before the
  button is pressed, the page runs nothing and shows no message.
\<close>

theorem empty_batch_outcome:
  "process_uploaded_files to_datetime to_numeric [] = ([], [])
   \<and> (list_all readable_without_records files \<longrightarrow>
        process_uploaded_files to_datetime to_numeric files = ([], []))
   \<and> (process_uploaded_files to_datetime to_numeric files = ([], errors) \<and> files \<noteq> [] \<longrightarrow>
        main_ui to_datetime to_numeric files True
          = map (\<lambda>(n, e). ReadFailed n e) errors @ [CannotParse])
   \<and> main_ui to_datetime to_numeric [] clicked = []
   \<and> main_ui to_datetime to_numeric files False = []"
proof (intro conjI)
  show "process_uploaded_files to_datetime to_numeric [] = ([], [])"
    by (simp add: process_uploaded_files_def assemble_def)
  show "list_all readable_without_records files \<longrightarrow>
        process_uploaded_files to_datetime to_numeric files = ([], [])"
    by (simp add: process_uploaded_files_def assemble_def files_loop_skip)
  show "process_uploaded_files to_datetime to_numeric files = ([], errors) \<and> files \<noteq> [] \<longrightarrow>
        main_ui to_datetime to_numeric files True
          = map (\<lambda>(n, e). ReadFailed n e) errors @ [CannotParse]"
    using main_ui_empty [of to_datetime to_numeric files errors True] by simp
  show "main_ui to_datetime to_numeric [] clicked = []"
    by (simp add: main_ui_def)
  show "main_ui to_datetime to_numeric files False = []"
    by (simp add: main_ui_def)
qed

theorem empty_batch_outcome_witness:
  "list_all readable_without_records [other_file]
   \<and> process_uploaded_files to_datetime_ex to_numeric_ex [other_file] = ([], [])
   \<and> main_ui to_datetime_ex to_numeric_ex [other_file] True = [CannotParse]"
proof -
  have r: "list_all readable_without_records [other_file]"
    by (simp add: readable_without_records_def skipped_sheet_def other_file_def eval_defs)
  with empty_batch_outcome [of to_datetime_ex to_numeric_ex "[other_file]"]
  have e: "process_uploaded_files to_datetime_ex to_numeric_ex [other_file] = ([], [])"
    by blast
  with empty_batch_outcome [of to_datetime_ex to_numeric_ex "[other_file]" "[]"]
  have "main_ui to_datetime_ex to_numeric_ex [other_file] True = [CannotParse]"
    by simp
  with r e show ?thesis by blast
qed

text \<open>
  The claim as stated fails for zero files: the table is empty and the page shows no
  message, since the script runs the pipeline only under \<open>if uploaded_files\<close>.
\<close>

theorem zero_files_no_message:
  "process_uploaded_files to_datetime_ex to_numeric_ex [] = ([], [])
   \<and> main_ui to_datetime_ex to_numeric_ex [] True = []
   \<and> CannotParse \<notin> set (main_ui to_datetime_ex to_numeric_ex [] True)"
  by (simp add: process_uploaded_files_def assemble_def main_ui_def)

section \<open>The PreAA message\<close>

text \<open>
  Claim C10.  For a table with records, the first message of the page is the success
  message exactly when the station \<open>PreAA_1\<close> occurs in the table, and the warning
  otherwise; so a table with \<open>PreAA_2\<close> records and no \<open>PreAA_1\<close> record gets the
  warning that PreAA data was not found, after the errors of the files that failed, and
  no success message.
\<close>

theorem preaa_signal:
  "(df \<noteq> [] \<and> Some ''PreAA_1'' \<in> Station_Generic ` set df \<longrightarrow>
      (\<exists>rest. report_branch df = Success (length df) # rest \<and> (\<forall>n. Warning n \<notin> set rest)))
   \<and> (df \<noteq> [] \<and> Some ''PreAA_1'' \<notin> Station_Generic ` set df \<longrightarrow>
      (\<exists>rest. report_branch df = Warning (length df) # rest \<and> (\<forall>n. Success n \<notin> set rest)))
   \<and> (process_uploaded_files to_datetime to_numeric files = (df', errors) \<and> files \<noteq> []
        \<and> df' \<noteq> [] \<and> Some ''PreAA_2'' \<in> Station_Generic ` set df'
        \<and> Some ''PreAA_1'' \<notin> Station_Generic ` set df' \<longrightarrow>
      (\<exists>rest. main_ui to_datetime to_numeric files True
                 = map (\<lambda>(n, e). ReadFailed n e) errors @ Warning (length df') # rest
               \<and> (\<forall>n. Success n \<notin> set rest)))"
proof (intro conjI)
  show "df \<noteq> [] \<and> Some ''PreAA_1'' \<in> Station_Generic ` set df \<longrightarrow>
      (\<exists>rest. report_branch df = Success (length df) # rest \<and> (\<forall>n. Warning n \<notin> set rest))"
    by (cases "generate_ppt (Frame df)") (auto simp: report_branch_def Let_def)
  show "df \<noteq> [] \<and> Some ''PreAA_1'' \<notin> Station_Generic ` set df \<longrightarrow>
      (\<exists>rest. report_branch df = Warning (length df) # rest \<and> (\<forall>n. Success n \<notin> set rest))"
    by (cases "generate_ppt (Frame df)") (auto simp: report_branch_def Let_def)
  show "process_uploaded_files to_datetime to_numeric files = (df', errors) \<and> files \<noteq> []
        \<and> df' \<noteq> [] \<and> Some ''PreAA_2'' \<in> Station_Generic ` set df'
        \<and> Some ''PreAA_1'' \<notin> Station_Generic ` set df' \<longrightarrow>
      (\<exists>rest. main_ui to_datetime to_numeric files True
                 = map (\<lambda>(n, e). ReadFailed n e) errors @ Warning (length df') # rest
               \<and> (\<forall>n. Success n \<notin> set rest))"
  proof
    assume a: "process_uploaded_files to_datetime to_numeric files = (df', errors) \<and> files \<noteq> []
        \<and> df' \<noteq> [] \<and> Some ''PreAA_2'' \<in> Station_Generic ` set df'
        \<and> Some ''PreAA_1'' \<notin> Station_Generic ` set df'"
    then have m: "main_ui to_datetime to_numeric files True
        = map (\<lambda>(n, e). ReadFailed n e) errors @ report_branch df'"
      unfolding main_ui_def by simp
    from a have "\<exists>rest. report_branch df' = Warning (length df') # rest
        \<and> (\<forall>n. Success n \<notin> set rest)"
      by (cases "generate_ppt (Frame df')") (auto simp: report_branch_def Let_def)
    with m show "\<exists>rest. main_ui to_datetime to_numeric files True
                 = map (\<lambda>(n, e). ReadFailed n e) errors @ Warning (length df') # rest
               \<and> (\<forall>n. Success n \<notin> set rest)"
      by auto
  qed
qed

theorem preaa_signal_witness:
  "process_uploaded_files to_datetime_ex to_numeric_ex [preaa2_file] = ([preaa2_row], [])
   \<and> (\<exists>rest. main_ui to_datetime_ex to_numeric_ex [preaa2_file] True = Warning 1 # rest)
   \<and> (\<exists>rest. report_branch [day1_row\<lparr>Station_Generic := Some ''PreAA_1''\<rparr>] = Success 1 # rest)"
proof -
  have e: "process_uploaded_files to_datetime_ex to_numeric_ex [preaa2_file] = ([preaa2_row], [])"
    by (simp add: eval_defs preaa2_file_def preaa2_row_def)
  have s: "Some ''PreAA_2'' \<in> Station_Generic ` set [preaa2_row]
      \<and> Some ''PreAA_1'' \<notin> Station_Generic ` set [preaa2_row]"
    by (simp add: preaa2_row_def)
  from preaa_signal [of "[preaa2_row]" to_datetime_ex to_numeric_ex "[preaa2_file]" "[preaa2_row]" "[]"] e s
  have 1: "\<exists>rest. main_ui to_datetime_ex to_numeric_ex [preaa2_file] True = Warning 1 # rest"
    by auto
  have "Some ''PreAA_1'' \<in> Station_Generic ` set [day1_row\<lparr>Station_Generic := Some ''PreAA_1''\<rparr>]"
    by simp
  with preaa_signal [of "[day1_row\<lparr>Station_Generic := Some ''PreAA_1''\<rparr>]"
      to_datetime_ex to_numeric_ex "[]" "[]" "[]"]
  have 2: "\<exists>rest. report_branch [day1_row\<lparr>Station_Generic := Some ''PreAA_1''\<rparr>] = Success 1 # rest"
    by auto
  from e 1 2 show ?thesis by blast
qed


section \<open>The latest box plot\<close>














lemma assemble_frame_records:
  "assemble_frame to_numeric all_data = NoColumns \<longleftrightarrow> all_data = []"
  "assemble_frame to_numeric all_data = Frame df \<Longrightarrow> df = assemble to_numeric all_data"
  by (auto simp: assemble_frame_def assemble_def split: if_splits)





end
